theory Spec2Isabelle
  imports Complex_Main "HOL-Library.Word"
begin

unbundle bit_operations_syntax

section \<open>JavaScript strings\<close>

text \<open>
  A JavaScript string is a sequence of UTF-16 code units. Every function of the library
  treats one code unit as one character, so a string is a list of 16-bit words.
  \<open>js\<close> writes a literal from an ASCII string.
\<close>

type_synonym jchar = "16 word"
type_synonym jstring = "jchar list"

definition js :: "string \<Rightarrow> jstring" where
  "js = map of_char"

text \<open>
  \<open>s.substring(a, b)\<close>: both indices are clamped to \<open>[0, |s|]\<close> and swapped when
  \<open>a > b\<close>. \<open>s.substring(a)\<close> is \<open>s.substring(a, |s|)\<close>.
\<close>

definition clampIndex :: "jstring \<Rightarrow> int \<Rightarrow> nat" where
  "clampIndex s a = nat (max 0 (min a (int (length s))))"

definition substring :: "jstring \<Rightarrow> int \<Rightarrow> int \<Rightarrow> jstring" where
  "substring s a b =
     (let a' = clampIndex s a; b' = clampIndex s b
      in take (max a' b' - min a' b') (drop (min a' b') s))"

definition substringFrom :: "jstring \<Rightarrow> int \<Rightarrow> jstring" where
  "substringFrom s a = drop (clampIndex s a) s"

text \<open>\<open>s.charAt(i)\<close> is the empty string when \<open>i\<close> is out of range.\<close>

definition charAt :: "jstring \<Rightarrow> int \<Rightarrow> jstring" where
  "charAt s i = (if 0 \<le> i \<and> i < int (length s) then [s ! nat i] else [])"

text \<open>
  \<open>s.indexOf(p, from)\<close>: the first index \<open>\<ge> from\<close> (clamped) at which \<open>p\<close> occurs,
  or \<open>-1\<close>. \<open>s.lastIndexOf(p, from)\<close>: the last index \<open>\<le> from\<close> (clamped) at which
  \<open>p\<close> occurs, or \<open>-1\<close>.
\<close>

definition occursAt :: "jstring \<Rightarrow> jstring \<Rightarrow> nat \<Rightarrow> bool" where
  "occursAt s p i = (i + length p \<le> length s \<and> take (length p) (drop i s) = p)"

definition indexOfFrom :: "jstring \<Rightarrow> jstring \<Rightarrow> int \<Rightarrow> int" where
  "indexOfFrom s p from =
     (case List.find (occursAt s p) [clampIndex s from ..< Suc (length s)] of
        None \<Rightarrow> -1 | Some i \<Rightarrow> int i)"

definition indexOf :: "jstring \<Rightarrow> jstring \<Rightarrow> int" where
  "indexOf s p = indexOfFrom s p 0"

definition lastIndexOfFrom :: "jstring \<Rightarrow> jstring \<Rightarrow> int \<Rightarrow> int" where
  "lastIndexOfFrom s p from =
     (case List.find (occursAt s p) (rev [0 ..< Suc (clampIndex s from)]) of
        None \<Rightarrow> -1 | Some i \<Rightarrow> int i)"

definition lastIndexOf :: "jstring \<Rightarrow> jstring \<Rightarrow> int" where
  "lastIndexOf s p = lastIndexOfFrom s p (int (length s))"

section \<open>Diff tuples\<close>

datatype Operation = DIFF_DELETE | DIFF_INSERT | DIFF_EQUAL

type_synonym DiffObj = "Operation \<times> jstring"

text \<open>
  An array of diff tuples, \<open>diffs\<close> in the source, is named \<open>diffList\<close> throughout.
\<close>

text \<open>
  \<open>Diff.text1\<close> and \<open>Diff.text2\<close>: the slot of a skipped tuple stays a hole of the
  array, which \<open>join('')\<close> renders as the empty string.
\<close>

definition Diff_text1 :: "DiffObj list \<Rightarrow> jstring" where
  "Diff_text1 diffList = concat (map (\<lambda>d. if fst d \<noteq> DIFF_INSERT then snd d else []) diffList)"

definition Diff_text2 :: "DiffObj list \<Rightarrow> jstring" where
  "Diff_text2 diffList = concat (map (\<lambda>d. if fst d \<noteq> DIFF_DELETE then snd d else []) diffList)"

text \<open>\<open>a.splice(i, n, items)\<close> on an array; \<open>a[i][1] = t\<close> on a tuple of the array.\<close>

definition splice :: "'a list \<Rightarrow> nat \<Rightarrow> nat \<Rightarrow> 'a list \<Rightarrow> 'a list" where
  "splice a i n items = take i a @ items @ drop (i + n) a"

definition setText :: "DiffObj list \<Rightarrow> nat \<Rightarrow> jstring \<Rightarrow> DiffObj list" where
  "setText diffList i t = diffList[i := (fst (diffList ! i), t)]"

definition setOp :: "DiffObj list \<Rightarrow> nat \<Rightarrow> Operation \<Rightarrow> DiffObj list" where
  "setOp diffList i op = diffList[i := (op, snd (diffList ! i))]"

section \<open>Common prefix and suffix\<close>

text \<open>
  \<open>Diff.commonPrefix\<close>: binary search for the length of the common prefix. The loop
  state is \<open>(pointermin, pointermax, pointermid, pointerstart)\<close>.
\<close>

function commonPrefix_loop ::
  "jstring \<Rightarrow> jstring \<Rightarrow> nat \<Rightarrow> nat \<Rightarrow> nat \<Rightarrow> nat \<Rightarrow> nat" where
  "commonPrefix_loop text1 text2 pointermin pointermax pointermid pointerstart =
     (if pointermin < pointermid then
        (if substring text1 (int pointerstart) (int pointermid) =
            substring text2 (int pointerstart) (int pointermid)
         then commonPrefix_loop text1 text2 pointermid pointermax
                ((pointermax - pointermid) div 2 + pointermid) pointermid
         else commonPrefix_loop text1 text2 pointermin pointermid
                ((pointermid - pointermin) div 2 + pointermin) pointerstart)
      else pointermid)"
  by pat_completeness auto
termination
  by (relation "measures [\<lambda>(t1, t2, pmin, pmax, pmid, ps). max pmax pmid - pmin,
                          \<lambda>(t1, t2, pmin, pmax, pmid, ps). pmid - pmin]")
     (auto simp: max_def)

declare commonPrefix_loop.simps [simp del]

definition commonPrefix :: "jstring \<Rightarrow> jstring \<Rightarrow> nat" where
  "commonPrefix text1 text2 =
     (if text1 = [] \<or> text2 = [] \<or> charAt text1 0 \<noteq> charAt text2 0 then 0
      else commonPrefix_loop text1 text2 0 (min (length text1) (length text2))
             (min (length text1) (length text2)) 0)"

text \<open>
  \<open>Diff.commonSuffix\<close>: the same search from the end; the loop state is
  \<open>(pointermin, pointermax, pointermid, pointerend)\<close>.
\<close>

function commonSuffix_loop ::
  "jstring \<Rightarrow> jstring \<Rightarrow> nat \<Rightarrow> nat \<Rightarrow> nat \<Rightarrow> nat \<Rightarrow> nat" where
  "commonSuffix_loop text1 text2 pointermin pointermax pointermid pointerend =
     (if pointermin < pointermid then
        (if substring text1 (int (length text1) - int pointermid)
                            (int (length text1) - int pointerend) =
            substring text2 (int (length text2) - int pointermid)
                            (int (length text2) - int pointerend)
         then commonSuffix_loop text1 text2 pointermid pointermax
                ((pointermax - pointermid) div 2 + pointermid) pointermid
         else commonSuffix_loop text1 text2 pointermin pointermid
                ((pointermid - pointermin) div 2 + pointermin) pointerend)
      else pointermid)"
  by pat_completeness auto
termination
  by (relation "measures [\<lambda>(t1, t2, pmin, pmax, pmid, pe). max pmax pmid - pmin,
                          \<lambda>(t1, t2, pmin, pmax, pmid, pe). pmid - pmin]")
     (auto simp: max_def)

declare commonSuffix_loop.simps [simp del]

definition commonSuffix :: "jstring \<Rightarrow> jstring \<Rightarrow> nat" where
  "commonSuffix text1 text2 =
     (if text1 = [] \<or> text2 = [] \<or>
         charAt text1 (int (length text1) - 1) \<noteq> charAt text2 (int (length text2) - 1)
      then 0
      else commonSuffix_loop text1 text2 0 (min (length text1) (length text2))
             (min (length text1) (length text2)) 0)"


section \<open>cleanupMerge\<close>

text \<open>
  The first sweep of \<open>Diff.cleanupMerge\<close>. Its state is the array \<open>diffList\<close>, the cursor
  \<open>pointer\<close>, the counters \<open>countDelete\<close>, \<open>countInsert\<close> and the collected texts
  \<open>textDelete\<close>, \<open>textInsert\<close>. The counters count the edit tuples directly before
  the cursor, so \<open>pointer - countDelete - countInsert\<close> is never negative.

  \<open>cleanupMerge_prefix\<close> and \<open>cleanupMerge_suffix\<close> are the two factoring steps taken
  when an equality is reached after both a deletion and an insertion; they return the
  new \<open>(diffList, pointer, textDelete, textInsert)\<close>.
\<close>

definition cleanupMerge_prefix ::
  "DiffObj list \<Rightarrow> nat \<Rightarrow> nat \<Rightarrow> nat \<Rightarrow> jstring \<Rightarrow> jstring
     \<Rightarrow> DiffObj list \<times> nat \<times> jstring \<times> jstring" where
  "cleanupMerge_prefix diffList pointer countDelete countInsert textDelete textInsert =
     (let commonlength = commonPrefix textInsert textDelete in
      if commonlength \<noteq> 0 then
        (let first = pointer - countDelete - countInsert;
             common = substring textInsert 0 (int commonlength);
             textInsert' = substringFrom textInsert (int commonlength);
             textDelete' = substringFrom textDelete (int commonlength)
         in if first > 0 \<and> fst (diffList ! (first - 1)) = DIFF_EQUAL
            then (setText diffList (first - 1) (snd (diffList ! (first - 1)) @ common),
                  pointer, textDelete', textInsert')
            else (splice diffList 0 0 [(DIFF_EQUAL, common)],
                  pointer + 1, textDelete', textInsert'))
      else (diffList, pointer, textDelete, textInsert))"

definition cleanupMerge_suffix ::
  "DiffObj list \<Rightarrow> nat \<Rightarrow> jstring \<Rightarrow> jstring
     \<Rightarrow> DiffObj list \<times> nat \<times> jstring \<times> jstring" where
  "cleanupMerge_suffix diffList pointer textDelete textInsert =
     (let commonlength = commonSuffix textInsert textDelete in
      if commonlength \<noteq> 0 then
        (setText diffList pointer
           (substringFrom textInsert (int (length textInsert) - int commonlength)
              @ snd (diffList ! pointer)),
         pointer,
         substring textDelete 0 (int (length textDelete) - int commonlength),
         substring textInsert 0 (int (length textInsert) - int commonlength))
      else (diffList, pointer, textDelete, textInsert))"

text \<open>
  \<open>cleanupMerge_group\<close>: delete the \<open>countDelete + countInsert\<close> records before the
  cursor and add the merged ones; returns the new \<open>(diffList, pointer)\<close>.
\<close>

definition cleanupMerge_group ::
  "DiffObj list \<Rightarrow> nat \<Rightarrow> nat \<Rightarrow> nat \<Rightarrow> jstring \<Rightarrow> jstring \<Rightarrow> DiffObj list \<times> nat" where
  "cleanupMerge_group diffList pointer countDelete countInsert textDelete textInsert =
     (let pointer1 = pointer - (countDelete + countInsert);
          diffs1 = splice diffList pointer1 (countDelete + countInsert) [];
          (diffs2, pointer2) =
            (if length textDelete \<noteq> 0
             then (splice diffs1 pointer1 0 [(DIFF_DELETE, textDelete)], pointer1 + 1)
             else (diffs1, pointer1));
          (diffs3, pointer3) =
            (if length textInsert \<noteq> 0
             then (splice diffs2 pointer2 0 [(DIFF_INSERT, textInsert)], pointer2 + 1)
             else (diffs2, pointer2))
      in (diffs3, pointer3 + 1))"

text \<open>The \<open>DIFF_EQUAL\<close> case of the first sweep; returns the new \<open>(diffList, pointer)\<close>.\<close>

definition cleanupMerge_equality ::
  "DiffObj list \<Rightarrow> nat \<Rightarrow> nat \<Rightarrow> nat \<Rightarrow> jstring \<Rightarrow> jstring \<Rightarrow> DiffObj list \<times> nat" where
  "cleanupMerge_equality diffList pointer countDelete countInsert textDelete textInsert =
     (if countDelete + countInsert > 1 then
        (if countDelete \<noteq> 0 \<and> countInsert \<noteq> 0 then
           (let (diffs1, pointer1, textDelete1, textInsert1) =
                  cleanupMerge_prefix diffList pointer countDelete countInsert textDelete textInsert;
                (diffs2, pointer2, textDelete2, textInsert2) =
                  cleanupMerge_suffix diffs1 pointer1 textDelete1 textInsert1
            in cleanupMerge_group diffs2 pointer2 countDelete countInsert textDelete2 textInsert2)
         else cleanupMerge_group diffList pointer countDelete countInsert textDelete textInsert)
      else if pointer \<noteq> 0 \<and> fst (diffList ! (pointer - 1)) = DIFF_EQUAL then
        (splice (setText diffList (pointer - 1) (snd (diffList ! (pointer - 1)) @ snd (diffList ! pointer)))
           pointer 1 [], pointer)
      else (diffList, pointer + 1))"

function cleanupMerge_loop1 ::
  "DiffObj list \<Rightarrow> nat \<Rightarrow> nat \<Rightarrow> nat \<Rightarrow> jstring \<Rightarrow> jstring \<Rightarrow> DiffObj list" where
  "cleanupMerge_loop1 diffList pointer countDelete countInsert textDelete textInsert =
     (if pointer < length diffList then
        (case fst (diffList ! pointer) of
           DIFF_INSERT \<Rightarrow>
             cleanupMerge_loop1 diffList (pointer + 1) countDelete (countInsert + 1)
               textDelete (textInsert @ snd (diffList ! pointer))
         | DIFF_DELETE \<Rightarrow>
             cleanupMerge_loop1 diffList (pointer + 1) (countDelete + 1) countInsert
               (textDelete @ snd (diffList ! pointer)) textInsert
         | DIFF_EQUAL \<Rightarrow>
             cleanupMerge_loop1
               (fst (cleanupMerge_equality diffList pointer countDelete countInsert
                       textDelete textInsert))
               (snd (cleanupMerge_equality diffList pointer countDelete countInsert
                       textDelete textInsert))
               0 0 [] [])
      else diffList)"
  by pat_completeness auto

lemma length_setText [simp]: "length (setText diffList i t) = length diffList"
  by (simp add: setText_def)

lemma length_splice:
  "length (splice a i n items) = min i (length a) + length items + (length a - (i + n))"
  by (simp add: splice_def)

lemma cleanupMerge_prefix_measure:
  assumes "cleanupMerge_prefix diffList pointer cd ci td ti = (diffList', pointer', td', ti')"
  shows "length diffList' - pointer' = length diffList - pointer \<and> pointer \<le> pointer' \<and>
         (pointer < length diffList \<longrightarrow> pointer' < length diffList')"
  using assms
  by (auto simp: cleanupMerge_prefix_def Let_def length_splice split: if_splits)

lemma cleanupMerge_suffix_measure:
  assumes "cleanupMerge_suffix diffList pointer td ti = (diffList', pointer', td', ti')"
  shows "length diffList' = length diffList \<and> pointer' = pointer"
  using assms
  by (auto simp: cleanupMerge_suffix_def Let_def split: if_splits)

lemma cleanupMerge_group_measure:
  assumes "cleanupMerge_group diffList pointer cd ci td ti = (diffList', pointer')"
    and "pointer < length diffList"
  shows "length diffList' - pointer' < length diffList - pointer"
  using assms
  by (auto simp: cleanupMerge_group_def Let_def length_splice split: if_splits)

lemma cleanupMerge_equality_measure:
  assumes "cleanupMerge_equality diffList pointer cd ci td ti = (diffList', pointer')"
    and "pointer < length diffList"
  shows "length diffList' - pointer' < length diffList - pointer"
proof (cases "cd + ci > 1")
  case True
  show ?thesis
  proof (cases "cd \<noteq> 0 \<and> ci \<noteq> 0")
    case both: True
    obtain d1 p1 td1 ti1 where pre:
      "cleanupMerge_prefix diffList pointer cd ci td ti = (d1, p1, td1, ti1)"
      by (metis prod_cases4)
    obtain d2 p2 td2 ti2 where suf:
      "cleanupMerge_suffix d1 p1 td1 ti1 = (d2, p2, td2, ti2)"
      by (metis prod_cases4)
    from assms(1) True both pre suf
    have grp: "cleanupMerge_group d2 p2 cd ci td2 ti2 = (diffList', pointer')"
      by (simp add: cleanupMerge_equality_def)
    from cleanupMerge_prefix_measure [OF pre] assms(2)
    have m1: "length d1 - p1 = length diffList - pointer" "p1 < length d1" by auto
    from cleanupMerge_suffix_measure [OF suf]
    have m2: "length d2 = length d1" "p2 = p1" by auto
    from cleanupMerge_group_measure [OF grp] m1 m2 show ?thesis by simp
  next
    case False
    with assms(1) True
    have "cleanupMerge_group diffList pointer cd ci td ti = (diffList', pointer')"
      by (auto simp: cleanupMerge_equality_def)
    from cleanupMerge_group_measure [OF this assms(2)] show ?thesis .
  qed
next
  case False
  with assms show ?thesis
    by (auto simp: cleanupMerge_equality_def length_splice split: if_splits)
qed

termination cleanupMerge_loop1
proof (relation "measure (\<lambda>(diffList, pointer, cd, ci, td, ti). length diffList - pointer)",
       goal_cases)
  case 1
  show ?case by simp
next
  case (2 diffList pointer cd ci td ti)
  then show ?case by simp
next
  case (3 diffList pointer cd ci td ti)
  then show ?case by simp
next
  case (4 diffList pointer cd ci td ti)
  from cleanupMerge_equality_measure [OF surjective_pairing 4(1)]
  show ?case by simp
qed

declare cleanupMerge_loop1.simps [simp del]

text \<open>
  The whole first sweep: add the dummy entry, run the loop, remove the last entry when
  its text is empty.
\<close>

definition cleanupMerge_pass1 :: "DiffObj list \<Rightarrow> DiffObj list" where
  "cleanupMerge_pass1 diffList =
     (let diffs1 = cleanupMerge_loop1 (diffList @ [(DIFF_EQUAL, [])]) 0 0 0 [] []
      in if snd (diffs1 ! (length diffs1 - 1)) = [] then butlast diffs1 else diffs1)"

text \<open>
  The second sweep: a single edit between two equalities is shifted over the previous
  or the next equality. The state is \<open>(diffList, pointer, changes)\<close>.
\<close>

function cleanupMerge_loop2 :: "DiffObj list \<Rightarrow> nat \<Rightarrow> bool \<Rightarrow> DiffObj list \<times> bool" where
  "cleanupMerge_loop2 diffList pointer changes =
     (if int pointer < int (length diffList) - 1 then
        (if fst (diffList ! (pointer - 1)) = DIFF_EQUAL \<and> fst (diffList ! (pointer + 1)) = DIFF_EQUAL
         then
           (let prev = snd (diffList ! (pointer - 1));
                edit = snd (diffList ! pointer);
                next = snd (diffList ! (pointer + 1))
            in if substringFrom edit (int (length edit) - int (length prev)) = prev then
                 cleanupMerge_loop2
                   (splice
                      (setText
                         (setText diffList pointer
                            (prev @ substring edit 0 (int (length edit) - int (length prev))))
                         (pointer + 1) (prev @ next))
                      (pointer - 1) 1 [])
                   (pointer + 1) True
               else if substring edit 0 (int (length next)) = next then
                 cleanupMerge_loop2
                   (splice
                      (setText
                         (setText diffList (pointer - 1) (prev @ next))
                         pointer (substringFrom edit (int (length next)) @ next))
                      (pointer + 1) 1 [])
                   (pointer + 1) True
               else cleanupMerge_loop2 diffList (pointer + 1) changes)
         else cleanupMerge_loop2 diffList (pointer + 1) changes)
      else (diffList, changes))"
  by pat_completeness auto
termination
  by (relation "measure (\<lambda>(diffList, pointer, changes). length diffList - pointer)")
     (auto simp: length_splice)

declare cleanupMerge_loop2.simps [simp del]

text \<open>
  \<open>Diff.cleanupMerge\<close> calls itself again when the second sweep made a shift. A run
  that never returns is the value \<open>None\<close>.
\<close>

partial_function (option) cleanupMerge :: "DiffObj list \<Rightarrow> DiffObj list option" where
  "cleanupMerge diffList =
     (let diffs1 = cleanupMerge_pass1 diffList;
          r = cleanupMerge_loop2 diffs1 1 False
      in if snd r then cleanupMerge (fst r) else Some (fst r))"


section \<open>Size of a script\<close>































lemma splice_remove: "splice ds i (Suc 0) [] = take i ds @ drop (Suc i) ds"
  by (simp add: splice_def)





section \<open>Canonical form of a script\<close>

text \<open>
  A script is in canonical form when no tuple has an empty text and no two adjacent
  tuples have the same operation.
\<close>

fun adjacentSameOp :: "DiffObj list \<Rightarrow> bool" where
  "adjacentSameOp (a # b # ds) = (fst a = fst b \<or> adjacentSameOp (b # ds))"
| "adjacentSameOp ds = False"

definition canonicalForm :: "DiffObj list \<Rightarrow> bool" where
  "canonicalForm ds = (list_all (\<lambda>d. snd d \<noteq> []) ds \<and> \<not> adjacentSameOp ds)"

section \<open>Errors\<close>

text \<open>Every \<open>throw\<close> of the library and of the built-in functions it calls.\<close>

datatype error =
    NullInput
  | URIError
  | IllegalEscape
  | InvalidNumber
  | InvalidDiffOperation
  | DeltaLengthMismatch
  | PatternTooLong
  | PatchNotInitialized
  | InvalidPatchString
  | InvalidPatchMode

section \<open>Built-in functions of the language\<close>

text \<open>
  The library calls \<open>parseInt\<close>, \<open>Number.toString\<close>, \<open>String.split\<close>, \<open>Array.join\<close>,
  \<open>String.replace\<close>, \<open>encodeURI\<close> and \<open>decodeURI\<close>. They are not code of the
  repository; the definitions below follow the ECMAScript specification. Numbers are
  unbounded integers: lengths and indices of strings stay below \<open>2^53\<close>, where the
  arithmetic of the language is exact.
\<close>

definition isStrWhiteSpace :: "jchar \<Rightarrow> bool" where
  "isStrWhiteSpace c =
     (c \<in> {0x09, 0x0A, 0x0B, 0x0C, 0x0D, 0x20, 0xA0, 0x1680, 0x2028, 0x2029, 0x202F,
            0x205F, 0x3000, 0xFEFF} \<or> (0x2000 \<le> c \<and> c \<le> 0x200A))"

definition isDigit :: "jchar \<Rightarrow> bool" where
  "isDigit c = (0x30 \<le> c \<and> c \<le> 0x39)"

definition digitsValue :: "jstring \<Rightarrow> nat" where
  "digitsValue z = foldl (\<lambda>acc c. 10 * acc + (unat c - 48)) 0 z"

text \<open>
  \<open>parseInt(s, 10)\<close>: leading white space is skipped, one sign is read, then the
  longest run of decimal digits; \<open>None\<close> is \<open>NaN\<close>.
\<close>

definition parseInt :: "jstring \<Rightarrow> int option" where
  "parseInt s =
     (let s1 = dropWhile isStrWhiteSpace s;
          neg = (s1 \<noteq> [] \<and> hd s1 = 0x2D);
          s2 = (if s1 \<noteq> [] \<and> (hd s1 = 0x2D \<or> hd s1 = 0x2B) then tl s1 else s1);
          z = takeWhile isDigit s2
      in if z = [] then None
         else Some (if neg then - int (digitsValue z) else int (digitsValue z)))"

text \<open>\<open>n.toString()\<close> for a non-negative integer.\<close>

fun toStringNat :: "nat \<Rightarrow> jstring" where
  "toStringNat n =
     (if n < 10 then [of_nat (48 + n)]
      else toStringNat (n div 10) @ [of_nat (48 + n mod 10)])"

declare toStringNat.simps [simp del]

text \<open>\<open>s.split(sep)\<close> for a one-character separator and \<open>a.join(sep)\<close>.\<close>

fun splitOn :: "jchar \<Rightarrow> jstring \<Rightarrow> jstring list" where
  "splitOn sep [] = [[]]"
| "splitOn sep (c # cs) =
     (if c = sep then [] # splitOn sep cs
      else (c # hd (splitOn sep cs)) # tl (splitOn sep cs))"

fun joinWith :: "jstring \<Rightarrow> jstring list \<Rightarrow> jstring" where
  "joinWith sep [] = []"
| "joinWith sep [t] = t"
| "joinWith sep (t # u # ts) = t @ sep @ joinWith sep (u # ts)"

text \<open>\<open>s.replace(/%20/g, ' ')\<close>: every occurrence, leftmost first, not overlapping.\<close>

fun replace20 :: "jstring \<Rightarrow> jstring" where
  "replace20 (a # b # c # rest) =
     (if a = 0x25 \<and> b = 0x32 \<and> c = 0x30 then 0x20 # replace20 rest
      else a # replace20 (b # c # rest))"
| "replace20 s = s"

subsection \<open>UTF-8\<close>

text \<open>
  The octets of a code point and the code point of a list of octets; \<open>utf8Decode\<close>
  accepts only the shortest encoding of a code point that is not a surrogate and not
  above \<open>0x10FFFF\<close>.
\<close>

definition utf8Encode :: "nat \<Rightarrow> nat list" where
  "utf8Encode cp =
     (if cp < 0x80 then [cp]
      else if cp < 0x800 then [0xC0 + cp div 64, 0x80 + cp mod 64]
      else if cp < 0x10000 then
        [0xE0 + cp div 4096, 0x80 + (cp div 64) mod 64, 0x80 + cp mod 64]
      else [0xF0 + cp div 262144, 0x80 + (cp div 4096) mod 64,
            0x80 + (cp div 64) mod 64, 0x80 + cp mod 64])"

definition isContinuation :: "nat \<Rightarrow> bool" where
  "isContinuation b = (0x80 \<le> b \<and> b < 0xC0)"

definition utf8Decode :: "nat list \<Rightarrow> nat option" where
  "utf8Decode octets =
     (case octets of
        [b0, b1] \<Rightarrow>
          (let v = (b0 mod 32) * 64 + b1 mod 64
           in if isContinuation b1 \<and> 0x80 \<le> v then Some v else None)
      | [b0, b1, b2] \<Rightarrow>
          (let v = (b0 mod 16) * 4096 + (b1 mod 64) * 64 + b2 mod 64
           in if isContinuation b1 \<and> isContinuation b2 \<and> 0x800 \<le> v \<and>
                 \<not> (0xD800 \<le> v \<and> v \<le> 0xDFFF)
              then Some v else None)
      | [b0, b1, b2, b3] \<Rightarrow>
          (let v = (b0 mod 8) * 262144 + (b1 mod 64) * 4096 + (b2 mod 64) * 64 + b3 mod 64
           in if isContinuation b1 \<and> isContinuation b2 \<and> isContinuation b3 \<and>
                 0x10000 \<le> v \<and> v \<le> 0x10FFFF
              then Some v else None)
      | _ \<Rightarrow> None)"

text \<open>The number of leading 1 bits of an octet.\<close>

definition leadingOnes :: "nat \<Rightarrow> nat" where
  "leadingOnes b =
     (if b < 0x80 then 0 else if b < 0xC0 then 1 else if b < 0xE0 then 2
      else if b < 0xF0 then 3 else if b < 0xF8 then 4 else 5)"

definition utf16Encode :: "nat \<Rightarrow> jstring" where
  "utf16Encode v =
     (if v < 0x10000 then [of_nat v]
      else [of_nat (0xD800 + (v - 0x10000) div 1024), of_nat (0xDC00 + (v - 0x10000) mod 1024)])"

subsection \<open>Percent escapes\<close>

definition hexDigit :: "nat \<Rightarrow> jchar" where
  "hexDigit d = (if d < 10 then of_nat (48 + d) else of_nat (55 + d))"

definition hexValue :: "jchar \<Rightarrow> nat option" where
  "hexValue c =
     (let v = unat c
      in if 48 \<le> v \<and> v \<le> 57 then Some (v - 48)
         else if 65 \<le> v \<and> v \<le> 70 then Some (v - 55)
         else if 97 \<le> v \<and> v \<le> 102 then Some (v - 87)
         else None)"

definition parseHexOctet :: "jchar \<Rightarrow> jchar \<Rightarrow> nat option" where
  "parseHexOctet h1 h2 =
     (case (hexValue h1, hexValue h2) of
        (Some a, Some b) \<Rightarrow> Some (16 * a + b)
      | _ \<Rightarrow> None)"

definition escapeOctet :: "nat \<Rightarrow> jstring" where
  "escapeOctet b = [0x25, hexDigit (b div 16), hexDigit (b mod 16)]"

definition isAlphaNum :: "jchar \<Rightarrow> bool" where
  "isAlphaNum c = ((0x30 \<le> c \<and> c \<le> 0x39) \<or> (0x41 \<le> c \<and> c \<le> 0x5A) \<or> (0x61 \<le> c \<and> c \<le> 0x7A))"

text \<open>The reserved characters \<open>; / ? : @ & = + $ ,\<close> and \<open>#\<close>.\<close>

definition uriReservedOrHash :: "jchar \<Rightarrow> bool" where
  "uriReservedOrHash c =
     (c \<in> {0x3B, 0x2F, 0x3F, 0x3A, 0x40, 0x26, 0x3D, 0x2B, 0x24, 0x2C, 0x23})"

text \<open>The characters \<open>encodeURI\<close> leaves alone: reserved, \<open>#\<close>, alphanumeric and \<open>- _ . ! ~ * ' ( )\<close>.\<close>

definition uriUnescaped :: "jchar \<Rightarrow> bool" where
  "uriUnescaped c =
     (uriReservedOrHash c \<or> isAlphaNum c \<or>
      c \<in> {0x2D, 0x5F, 0x2E, 0x21, 0x7E, 0x2A, 0x27, 0x28, 0x29})"

definition isHighSurrogate :: "jchar \<Rightarrow> bool" where
  "isHighSurrogate c = (0xD800 \<le> c \<and> c \<le> 0xDBFF)"

definition isLowSurrogate :: "jchar \<Rightarrow> bool" where
  "isLowSurrogate c = (0xDC00 \<le> c \<and> c \<le> 0xDFFF)"

definition escapeCodePoint :: "nat \<Rightarrow> jstring" where
  "escapeCodePoint cp = concat (map escapeOctet (utf8Encode cp))"

text \<open>\<open>encodeURI(s)\<close>; \<open>None\<close> is the \<open>URIError\<close> raised at an unpaired surrogate.\<close>

fun encodeURI :: "jstring \<Rightarrow> jstring option" where
  "encodeURI [] = Some []"
| "encodeURI (c # cs) =
     (if uriUnescaped c then map_option (\<lambda>r. c # r) (encodeURI cs)
      else if isLowSurrogate c then None
      else if isHighSurrogate c then
        (case cs of
           [] \<Rightarrow> None
         | d # rest \<Rightarrow>
             if isLowSurrogate d
             then map_option
                    (\<lambda>r. escapeCodePoint
                            ((unat c - 0xD800) * 1024 + (unat d - 0xDC00) + 0x10000) @ r)
                    (encodeURI rest)
             else None)
      else map_option (\<lambda>r. escapeCodePoint (unat c) @ r) (encodeURI cs))"

text \<open>
  \<open>readContinuation k s\<close> reads \<open>k\<close> further escapes \<open>%XX\<close> from \<open>s\<close> and returns their
  octets and the rest of \<open>s\<close>.
\<close>

fun readContinuation :: "nat \<Rightarrow> jstring \<Rightarrow> (nat list \<times> jstring) option" where
  "readContinuation 0 s = Some ([], s)"
| "readContinuation (Suc k) (p # h1 # h2 # rest) =
     (if p = 0x25 then
        (case parseHexOctet h1 h2 of
           None \<Rightarrow> None
         | Some b \<Rightarrow>
             (case readContinuation k rest of
                None \<Rightarrow> None
              | Some (bs, rest') \<Rightarrow> Some (b # bs, rest')))
      else None)"
| "readContinuation (Suc k) s = None"

lemma readContinuation_length:
  "readContinuation k s = Some (bs, rest) \<Longrightarrow> length rest \<le> length s"
proof (induction k s arbitrary: bs rest rule: readContinuation.induct)
  case (2 k p h1 h2 r)
  then show ?case
    by (auto split: if_splits option.splits prod.splits) fastforce
qed simp_all

text \<open>\<open>decodeURI(s)\<close>; \<open>None\<close> is the \<open>URIError\<close> raised at a malformed escape.\<close>

function decodeURI :: "jstring \<Rightarrow> jstring option" where
  "decodeURI [] = Some []"
| "decodeURI (c # cs) =
     (if c \<noteq> 0x25 then map_option (\<lambda>r. c # r) (decodeURI cs)
      else
        (case cs of
           h1 # h2 # rest \<Rightarrow>
             (case parseHexOctet h1 h2 of
                None \<Rightarrow> None
              | Some b \<Rightarrow>
                  if leadingOnes b = 0 then
                    map_option
                      (\<lambda>r. (if uriReservedOrHash (of_nat b) then [c, h1, h2] else [of_nat b]) @ r)
                      (decodeURI rest)
                  else if leadingOnes b = 1 \<or> leadingOnes b > 4 then None
                  else
                    (case readContinuation (leadingOnes b - 1) rest of
                       None \<Rightarrow> None
                     | Some (bs, rest') \<Rightarrow>
                         (case utf8Decode (b # bs) of
                            None \<Rightarrow> None
                          | Some v \<Rightarrow> map_option (\<lambda>r. utf16Encode v @ r) (decodeURI rest'))))
         | _ \<Rightarrow> None))"
  by pat_completeness auto
termination
  by (relation "measure length") (auto dest: readContinuation_length)

declare decodeURI.simps [simp del]

section \<open>Delta encoding\<close>

text \<open>
  \<open>Diff.toDelta\<close>; \<open>Inl URIError\<close> when \<open>encodeURI\<close> raises on the text of an insertion.
\<close>

definition toDelta_token :: "DiffObj \<Rightarrow> jstring option" where
  "toDelta_token d =
     (case fst d of
        DIFF_INSERT \<Rightarrow> map_option (\<lambda>e. 0x2B # e) (encodeURI (snd d))
      | DIFF_DELETE \<Rightarrow> Some (0x2D # toStringNat (length (snd d)))
      | DIFF_EQUAL \<Rightarrow> Some (0x3D # toStringNat (length (snd d))))"

fun toDelta_tokens :: "DiffObj list \<Rightarrow> jstring list option" where
  "toDelta_tokens [] = Some []"
| "toDelta_tokens (d # ds) =
     (case toDelta_token d of
        None \<Rightarrow> None
      | Some t \<Rightarrow> map_option (\<lambda>ts. t # ts) (toDelta_tokens ds))"

definition toDelta :: "DiffObj list \<Rightarrow> error + jstring" where
  "toDelta diffList =
     (case toDelta_tokens diffList of
        None \<Rightarrow> Inl URIError
      | Some text \<Rightarrow> Inr (replace20 (joinWith [0x09] text)))"

text \<open>
  \<open>Diff.fromDelta\<close>. The loop over the tokens carries the cursor \<open>pointer\<close> in \<open>text1\<close>
  and the script built so far.
\<close>

fun fromDelta_loop ::
  "jstring \<Rightarrow> jstring list \<Rightarrow> int \<Rightarrow> DiffObj list \<Rightarrow> error + (int \<times> DiffObj list)" where
  "fromDelta_loop text1 [] pointer diffList = Inr (pointer, diffList)"
| "fromDelta_loop text1 (token # tokens) pointer diffList =
     (let param = substringFrom token 1 in
      if charAt token 0 = [0x2B] then
        (case decodeURI param of
           None \<Rightarrow> Inl IllegalEscape
         | Some t \<Rightarrow> fromDelta_loop text1 tokens pointer (diffList @ [(DIFF_INSERT, t)]))
      else if charAt token 0 = [0x2D] \<or> charAt token 0 = [0x3D] then
        (case parseInt param of
           None \<Rightarrow> Inl InvalidNumber
         | Some n \<Rightarrow>
             if n < 0 then Inl InvalidNumber
             else
               (let text = substring text1 pointer (pointer + n) in
                if charAt token 0 = [0x3D]
                then fromDelta_loop text1 tokens (pointer + n) (diffList @ [(DIFF_EQUAL, text)])
                else fromDelta_loop text1 tokens (pointer + n) (diffList @ [(DIFF_DELETE, text)])))
      else if token \<noteq> [] then Inl InvalidDiffOperation
      else fromDelta_loop text1 tokens pointer diffList)"

definition fromDelta :: "jstring \<Rightarrow> jstring \<Rightarrow> error + DiffObj list" where
  "fromDelta text1 delta =
     (case fromDelta_loop text1 (splitOn 0x09 delta) 0 [] of
        Inl e \<Rightarrow> Inl e
      | Inr (pointer, diffList) \<Rightarrow>
          if pointer \<noteq> int (length text1) then Inl DeltaLengthMismatch else Inr diffList)"

section \<open>Well-formed deltas\<close>

text \<open>
  The character count of a token \<open>=N\<close> or \<open>-N\<close> is \<open>N\<close>; other tokens count nothing.
  A token is well formed when it is empty, or \<open>+\<close> followed by a text that \<open>decodeURI\<close>
  accepts, or \<open>=\<close> or \<open>-\<close> followed by a non-empty run of decimal digits.
\<close>

definition tokenCount :: "jstring \<Rightarrow> int" where
  "tokenCount token =
     (if charAt token 0 = [0x2D] \<or> charAt token 0 = [0x3D]
      then (case parseInt (substringFrom token 1) of None \<Rightarrow> 0 | Some n \<Rightarrow> n)
      else 0)"

definition deltaCount :: "jstring \<Rightarrow> int" where
  "deltaCount delta = sum_list (map tokenCount (splitOn 0x09 delta))"

definition wellFormedToken :: "jstring \<Rightarrow> bool" where
  "wellFormedToken token =
     (token = [] \<or>
      (charAt token 0 = [0x2B] \<and> (\<exists>t. decodeURI (substringFrom token 1) = Some t)) \<or>
      ((charAt token 0 = [0x2D] \<or> charAt token 0 = [0x3D]) \<and>
       substringFrom token 1 \<noteq> [] \<and> list_all isDigit (substringFrom token 1)))"

definition wellFormedDelta :: "jstring \<Rightarrow> bool" where
  "wellFormedDelta delta = list_all wellFormedToken (splitOn 0x09 delta)"

lemma fromDelta_loop_pointer:
  "fromDelta_loop text1 tokens pointer diffList = Inr (p', ds') \<Longrightarrow>
   p' = pointer + sum_list (map tokenCount tokens)"
proof (induction tokens arbitrary: pointer diffList)
  case Nil
  then show ?case by simp
next
  case (Cons token tokens)
  show ?case
  proof (cases "charAt token 0 = [0x2B]")
    case True
    with Cons.prems obtain t where "decodeURI (substringFrom token 1) = Some t"
      "fromDelta_loop text1 tokens pointer (diffList @ [(DIFF_INSERT, t)]) = Inr (p', ds')"
      by (auto simp: Let_def split: option.splits)
    from Cons.IH [OF this(2)] True show ?thesis by (simp add: tokenCount_def)
  next
    case plus: False
    show ?thesis
    proof (cases "charAt token 0 = [0x2D] \<or> charAt token 0 = [0x3D]")
      case True
      with Cons.prems plus obtain n where n: "parseInt (substringFrom token 1) = Some n" "0 \<le> n"
        and r: "\<exists>op t. fromDelta_loop text1 tokens (pointer + n) (diffList @ [(op, t)]) = Inr (p', ds')"
        by (auto simp: Let_def split: option.splits if_splits)
      from r obtain op t where
        "fromDelta_loop text1 tokens (pointer + n) (diffList @ [(op, t)]) = Inr (p', ds')" by blast
      from Cons.IH [OF this] True n show ?thesis by (simp add: tokenCount_def)
    next
      case False
      with Cons.prems plus have "fromDelta_loop text1 tokens pointer diffList = Inr (p', ds')"
        by (auto simp: Let_def split: if_splits)
      from Cons.IH [OF this] False show ?thesis by (simp add: tokenCount_def)
    qed
  qed
qed

lemma isDigit_not_space: "isDigit c \<Longrightarrow> \<not> isStrWhiteSpace c \<and> c \<noteq> 0x2D \<and> c \<noteq> 0x2B"
  by (auto simp: isDigit_def isStrWhiteSpace_def word_le_nat_alt)

lemma parseInt_digits:
  assumes "z \<noteq> []" "list_all isDigit z"
  shows "parseInt z = Some (int (digitsValue z))"
proof -
  obtain c r where z: "z = c # r" using assms(1) by (cases z) auto
  then have c: "isDigit c" using assms(2) by simp
  have 1: "dropWhile isStrWhiteSpace z = z"
    using isDigit_not_space [OF c] by (simp add: z)
  have 2: "takeWhile isDigit z = z"
    using assms(2) by (simp add: list_all_iff)
  show ?thesis
    unfolding parseInt_def 1 Let_def
    using isDigit_not_space [OF c] 2 assms(1) by (simp add: z)
qed

lemma fromDelta_loop_wellFormed:
  "list_all wellFormedToken tokens \<Longrightarrow>
   \<exists>p' ds'. fromDelta_loop text1 tokens pointer diffList = Inr (p', ds')"
proof (induction tokens arbitrary: pointer diffList)
  case Nil
  then show ?case by simp
next
  case (Cons token tokens)
  then have wf: "wellFormedToken token" and rest: "list_all wellFormedToken tokens" by auto
  note IH = Cons.IH [OF rest]
  show ?case
  proof (cases "charAt token 0 = [0x2B]")
    case True
    with wf obtain t where "decodeURI (substringFrom token 1) = Some t"
      by (auto simp: wellFormedToken_def charAt_def)
    with True IH show ?thesis by (simp add: Let_def)
  next
    case plus: False
    show ?thesis
    proof (cases "charAt token 0 = [0x2D] \<or> charAt token 0 = [0x3D]")
      case True
      with wf plus have "substringFrom token 1 \<noteq> []" "list_all isDigit (substringFrom token 1)"
        by (auto simp: wellFormedToken_def charAt_def)
      from parseInt_digits [OF this] plus True IH show ?thesis
        by (simp add: Let_def)
    next
      case False
      with wf plus have "token = []" by (auto simp: wellFormedToken_def)
      with IH show ?thesis by (simp add: Let_def charAt_def)
    qed
  qed
qed

section \<open>Round trip of the delta encoding\<close>























































section \<open>Evaluation rules\<close>

lemmas js_eval = substring_def substringFrom_def clampIndex_def charAt_def splice_def
  setText_def setOp_def js_def Let_def

lemmas cleanupMerge_eval = cleanupMerge.simps cleanupMerge_pass1_def cleanupMerge_loop1.simps
  cleanupMerge_loop2.simps cleanupMerge_equality_def cleanupMerge_group_def
  cleanupMerge_prefix_def cleanupMerge_suffix_def commonPrefix_def commonSuffix_def
  commonPrefix_loop.simps commonSuffix_loop.simps

lemmas delta_eval = fromDelta_def deltaCount_def wellFormedDelta_def wellFormedToken_def
  tokenCount_def parseInt_def digitsValue_def isDigit_def isStrWhiteSpace_def
  decodeURI.simps toStringNat.simps toDelta_def toDelta_token_def


section \<open>Configuration\<close>

text \<open>
  The properties of the three engines. \<open>clock\<close> gives the value of
  \<open>(new Date()).getTime()\<close> at each call, counted from zero; the number of calls made so
  far is threaded through the functions that read the clock. Fractional numbers are
  rationals.
\<close>

record DiffConfig =
  diffTimeout :: rat
  diffEditCost :: rat
  clock :: "nat \<Rightarrow> int"

record MatchConfig =
  matchThreshold :: rat
  matchDistance :: rat
  matchMaxBits :: nat

record PatchConfig =
  patchDeleteThreshold :: rat
  patchMargin :: nat

text \<open>The deadline of a diff: \<open>Number.MAX_VALUE\<close> or a time in milliseconds.\<close>

datatype deadline = Never | At rat

definition pastDeadline :: "int \<Rightarrow> deadline \<Rightarrow> bool" where
  "pastDeadline now d = (case d of Never \<Rightarrow> False | At t \<Rightarrow> of_int now > t)"

section \<open>Common overlap\<close>

text \<open>
  In this and the following sections a function that contains a loop whose exit depends
  on the data returns an option: \<open>None\<close> stands for a run that does not return a value.
\<close>

partial_function (option) commonOverlap_loop ::
  "jstring \<Rightarrow> jstring \<Rightarrow> nat \<Rightarrow> nat \<Rightarrow> nat \<Rightarrow> nat option" where
  "commonOverlap_loop text1 text2 textLength best len =
     (let pattern = substringFrom text1 (int textLength - int len);
          found = indexOf text2 pattern
      in if found = -1 then Some best
         else
           (let len1 = len + nat found
            in if found = 0 \<or>
                  substringFrom text1 (int textLength - int len1) = substring text2 0 (int len1)
               then commonOverlap_loop text1 text2 textLength len1 (len1 + 1)
               else commonOverlap_loop text1 text2 textLength best len1))"

declare commonOverlap_loop.simps [code]

definition commonOverlap :: "jstring \<Rightarrow> jstring \<Rightarrow> nat option" where
  "commonOverlap text1 text2 =
     (let text1Length = length text1; text2Length = length text2
      in if text1Length = 0 \<or> text2Length = 0 then Some 0
         else
           (let text1a = (if text1Length > text2Length
                          then substringFrom text1 (int text1Length - int text2Length)
                          else text1);
                text2a = (if text1Length < text2Length
                          then substring text2 0 (int text1Length)
                          else text2);
                textLength = min text1Length text2Length
            in if text1a = text2a then Some textLength
               else commonOverlap_loop text1a text2a textLength 0 1))"

section \<open>Half match\<close>

type_synonym halfMatchResult = "jstring \<times> jstring \<times> jstring \<times> jstring \<times> jstring"

text \<open>
  The loop of \<open>halfMatchI\<close>; its state is \<open>j\<close> and the best match so far
  \<open>(bestLongtextA, bestLongtextB, bestShorttextA, bestShorttextB, bestCommon)\<close>.
\<close>

partial_function (option) halfMatchI_loop ::
  "jstring \<Rightarrow> jstring \<Rightarrow> int \<Rightarrow> jstring \<Rightarrow> int \<Rightarrow> halfMatchResult
     \<Rightarrow> halfMatchResult option" where
  "halfMatchI_loop longtext shorttext i seed j best =
     (let j1 = indexOfFrom shorttext seed (j + 1)
      in if j1 \<noteq> -1 then
           (let prefixLength = int (commonPrefix (substringFrom longtext i)
                                      (substringFrom shorttext j1));
                suffixLength = int (commonSuffix (substring longtext 0 i)
                                      (substring shorttext 0 j1))
            in if int (length (snd (snd (snd (snd best))))) < suffixLength + prefixLength
               then halfMatchI_loop longtext shorttext i seed j1
                      (substring longtext 0 (i - suffixLength),
                       substringFrom longtext (i + prefixLength),
                       substring shorttext 0 (j1 - suffixLength),
                       substringFrom shorttext (j1 + prefixLength),
                       substring shorttext (j1 - suffixLength) j1 @
                         substring shorttext j1 (j1 + prefixLength))
               else halfMatchI_loop longtext shorttext i seed j1 best)
         else Some best)"

declare halfMatchI_loop.simps [code]

text \<open>\<open>halfMatchI\<close>: the inner \<open>None\<close> is the result \<open>null\<close>.\<close>

definition halfMatchI :: "jstring \<Rightarrow> jstring \<Rightarrow> int \<Rightarrow> halfMatchResult option option" where
  "halfMatchI longtext shorttext i =
     (let seed = substring longtext i (i + int (length longtext div 4))
      in case halfMatchI_loop longtext shorttext i seed (-1) ([], [], [], [], []) of
           None \<Rightarrow> None
         | Some best \<Rightarrow>
             if length (snd (snd (snd (snd best)))) * 2 \<ge> length longtext
             then Some (Some best) else Some None)"

definition halfMatch :: "DiffConfig \<Rightarrow> jstring \<Rightarrow> jstring \<Rightarrow> halfMatchResult option option" where
  "halfMatch cfg text1 text2 =
     (if diffTimeout cfg \<le> 0 then Some None
      else
        (let longtext = (if length text1 > length text2 then text1 else text2);
             shorttext = (if length text1 > length text2 then text2 else text1)
         in if length longtext < 4 \<or> length shorttext * 2 < length longtext then Some None
            else
              (case halfMatchI longtext shorttext (int ((length longtext + 3) div 4)) of
                 None \<Rightarrow> None
               | Some hm1 \<Rightarrow>
                   (case halfMatchI longtext shorttext (int ((length longtext + 1) div 2)) of
                      None \<Rightarrow> None
                    | Some hm2 \<Rightarrow>
                        (let hm =
                               (case (hm1, hm2) of
                                  (Some a, Some b) \<Rightarrow>
                                    Some (if length (snd (snd (snd (snd a)))) >
                                             length (snd (snd (snd (snd b)))) then a else b)
                                | (Some a, None) \<Rightarrow> Some a
                                | (None, Some b) \<Rightarrow> Some b
                                | (None, None) \<Rightarrow> None)
                         in case hm of
                              None \<Rightarrow> Some None
                            | Some (h0, h1, h2, h3, h4) \<Rightarrow>
                                if length text1 > length text2
                                then Some (Some (h0, h1, h2, h3, h4))
                                else Some (Some (h2, h3, h0, h1, h4)))))))"

section \<open>Lines to characters\<close>

text \<open>
  \<open>lineHash\<close> is a plain object used as a dictionary. Reading \<open>lineHash[line]\<close> finds
  the object's own property when there is one and otherwise a property inherited from
  \<open>Object.prototype\<close>, whose names are listed below; the source compares the value read
  with \<open>undefined\<close> and does not ask whether the property is the object's own.
  \<open>String.fromCharCode\<close> of an inherited value (a function or an object) is the code
  unit 0. Assigning a number to \<open>__proto__\<close> leaves the object unchanged.
\<close>

definition objectPrototypeNames :: "jstring list" where
  "objectPrototypeNames =
     [js ''constructor'', js ''__defineGetter__'', js ''__defineSetter__'',
      js ''hasOwnProperty'', js ''__lookupGetter__'', js ''__lookupSetter__'',
      js ''isPrototypeOf'', js ''propertyIsEnumerable'', js ''toString'', js ''valueOf'',
      js ''__proto__'', js ''toLocaleString'']"

datatype hashValue = Own nat | Inherited | Undefined

type_synonym lineHash = "(jstring \<times> nat) list"

definition lineHashGet :: "lineHash \<Rightarrow> jstring \<Rightarrow> hashValue" where
  "lineHashGet h line =
     (case map_of h line of
        Some n \<Rightarrow> Own n
      | None \<Rightarrow> if line \<in> set objectPrototypeNames then Inherited else Undefined)"

definition lineHashSet :: "lineHash \<Rightarrow> jstring \<Rightarrow> nat \<Rightarrow> lineHash" where
  "lineHashSet h line n = (if line = js ''__proto__'' then h else (line, n) # h)"

definition fromCharCode :: "hashValue \<Rightarrow> jchar" where
  "fromCharCode v = (case v of Own n \<Rightarrow> of_nat n | _ \<Rightarrow> 0)"

text \<open>
  The loop of \<open>linesToCharsMunge\<close>; its state is \<open>lineStart\<close>, \<open>lineEnd\<close>, \<open>chars\<close> and
  the shared \<open>lineArray\<close> and \<open>lineHash\<close> (\<open>lineArrayLength\<close> is the length of
  \<open>lineArray\<close>).
\<close>

partial_function (option) linesToCharsMunge_loop ::
  "jstring \<Rightarrow> nat \<Rightarrow> int \<Rightarrow> int \<Rightarrow> jstring \<Rightarrow> jstring list \<Rightarrow> lineHash
     \<Rightarrow> (jstring \<times> jstring list \<times> lineHash) option" where
  "linesToCharsMunge_loop text maxLines lineStart lineEnd chars lineArray lineHash =
     (if lineEnd < int (length text) - 1 then
        (let found = indexOfFrom text [0x0A] lineStart;
             lineEnd1 = (if found = -1 then int (length text) - 1 else found);
             line = substring text lineStart (lineEnd1 + 1)
         in if lineHashGet lineHash line \<noteq> Undefined then
              linesToCharsMunge_loop text maxLines (lineEnd1 + 1) lineEnd1
                (chars @ [fromCharCode (lineHashGet lineHash line)]) lineArray lineHash
            else
              (let line1 = (if length lineArray = maxLines
                            then substringFrom text lineStart else line);
                   lineEnd2 = (if length lineArray = maxLines
                               then int (length text) else lineEnd1)
               in linesToCharsMunge_loop text maxLines (lineEnd2 + 1) lineEnd2
                    (chars @ [fromCharCode (Own (length lineArray))])
                    (lineArray @ [line1])
                    (lineHashSet lineHash line1 (length lineArray))))
      else Some (chars, lineArray, lineHash))"

declare linesToCharsMunge_loop.simps [code]

definition linesToChars ::
  "jstring \<Rightarrow> jstring \<Rightarrow> (jstring \<times> jstring \<times> jstring list) option" where
  "linesToChars text1 text2 =
     (case linesToCharsMunge_loop text1 40000 0 (-1) [] [[]] [] of
        None \<Rightarrow> None
      | Some (chars1, lineArray1, lineHash1) \<Rightarrow>
          (case linesToCharsMunge_loop text2 65535 0 (-1) [] lineArray1 lineHash1 of
             None \<Rightarrow> None
           | Some (chars2, lineArray2, lineHash2) \<Rightarrow> Some (chars1, chars2, lineArray2)))"

text \<open>
  \<open>charsToLines\<close>: a code unit without an entry in \<open>lineArray\<close> reads \<open>undefined\<close>, which
  \<open>join('')\<close> renders as the empty string.
\<close>

definition charsToLines :: "DiffObj list \<Rightarrow> jstring list \<Rightarrow> DiffObj list" where
  "charsToLines diffList lineArray =
     map (\<lambda>d. (fst d,
                concat (map (\<lambda>c. if unat c < length lineArray then lineArray ! unat c else [])
                          (snd d))))
       diffList"

section \<open>Reading an array\<close>

text \<open>
  \<open>a[i]\<close> for an index that may be out of range: \<open>None\<close> is \<open>undefined\<close>. Where the
  source goes on to read a component of an undefined tuple, it fails with a
  \<open>TypeError\<close> and the model returns \<open>None\<close>.
\<close>

definition nthOpt :: "'a list \<Rightarrow> int \<Rightarrow> 'a option" where
  "nthOpt a i = (if 0 \<le> i \<and> i < int (length a) then Some (a ! nat i) else None)"

section \<open>cleanupSemanticLossless\<close>

text \<open>
  The regular expressions of the class: \<open>/[^a-zA-Z0-9]/\<close>, \<open>/\<bsol>s/\<close>, \<open>/[\<bsol>r\<bsol>n]/\<close>,
  \<open>/\<bsol>n\<bsol>r?\<bsol>n$/\<close> and \<open>/^\<bsol>r?\<bsol>n\<bsol>r?\<bsol>n/\<close>.
\<close>

definition linebreakChar :: "jchar \<Rightarrow> bool" where
  "linebreakChar c = (c = 0x0D \<or> c = 0x0A)"

definition blanklineEnd :: "jstring \<Rightarrow> bool" where
  "blanklineEnd s =
     (let n = length s
      in (n \<ge> 2 \<and> s ! (n - 1) = 0x0A \<and> s ! (n - 2) = 0x0A) \<or>
         (n \<ge> 3 \<and> s ! (n - 1) = 0x0A \<and> s ! (n - 2) = 0x0D \<and> s ! (n - 3) = 0x0A))"

definition blanklineStart :: "jstring \<Rightarrow> bool" where
  "blanklineStart s =
     (let s1 = (if s \<noteq> [] \<and> hd s = 0x0D then tl s else s)
      in s1 \<noteq> [] \<and> hd s1 = 0x0A \<and>
         (let s2 = (if tl s1 \<noteq> [] \<and> hd (tl s1) = 0x0D then tl (tl s1) else tl s1)
          in s2 \<noteq> [] \<and> hd s2 = 0x0A))"

text \<open>
  \<open>cleanupSemanticScore\<close>. Each of the source's variables holds a match result,
  \<open>null\<close> or \<open>false\<close>; the model keeps its truth value, which is all the source uses.
\<close>

definition cleanupSemanticScore :: "jstring \<Rightarrow> jstring \<Rightarrow> nat" where
  "cleanupSemanticScore one two =
     (if one = [] \<or> two = [] then 6
      else
        (let char1 = last one;
             char2 = hd two;
             nonAlphaNumeric1 = (\<not> isAlphaNum char1);
             nonAlphaNumeric2 = (\<not> isAlphaNum char2);
             whitespace1 = (nonAlphaNumeric1 \<and> isStrWhiteSpace char1);
             whitespace2 = (nonAlphaNumeric2 \<and> isStrWhiteSpace char2);
             lineBreak1 = (whitespace1 \<and> linebreakChar char1);
             lineBreak2 = (whitespace2 \<and> linebreakChar char2);
             blankLine1 = (lineBreak1 \<and> blanklineEnd one);
             blankLine2 = (lineBreak2 \<and> blanklineStart two)
         in if blankLine1 \<or> blankLine2 then 5
            else if lineBreak1 \<or> lineBreak2 then 4
            else if nonAlphaNumeric1 \<and> \<not> whitespace1 \<and> whitespace2 then 3
            else if whitespace1 \<or> whitespace2 then 2
            else if nonAlphaNumeric1 \<or> nonAlphaNumeric2 then 1
            else 0))"

text \<open>
  The inner loop steps the edit to the right, character by character; its state is
  \<open>(equality1, edit, equality2)\<close> and the best fit so far with its score.
\<close>

partial_function (option) cleanupSemanticLossless_shift ::
  "jstring \<Rightarrow> jstring \<Rightarrow> jstring \<Rightarrow> jstring \<Rightarrow> jstring \<Rightarrow> jstring \<Rightarrow> nat
     \<Rightarrow> (jstring \<times> jstring \<times> jstring) option" where
  "cleanupSemanticLossless_shift equality1 edit equality2
       bestEquality1 bestEdit bestEquality2 bestScore =
     (if charAt edit 0 = charAt equality2 0 then
        (let equality1a = equality1 @ charAt edit 0;
             edita = substringFrom edit 1 @ charAt equality2 0;
             equality2a = substringFrom equality2 1;
             score = cleanupSemanticScore equality1a edita +
                     cleanupSemanticScore edita equality2a
         in if score \<ge> bestScore
            then cleanupSemanticLossless_shift equality1a edita equality2a
                   equality1a edita equality2a score
            else cleanupSemanticLossless_shift equality1a edita equality2a
                   bestEquality1 bestEdit bestEquality2 bestScore)
      else Some (bestEquality1, bestEdit, bestEquality2))"

declare cleanupSemanticLossless_shift.simps [code]

partial_function (option) cleanupSemanticLossless_loop ::
  "DiffObj list \<Rightarrow> int \<Rightarrow> DiffObj list option" where
  "cleanupSemanticLossless_loop diffList pointer =
     (if pointer < int (length diffList) - 1 then
        (case (nthOpt diffList (pointer - 1), nthOpt diffList pointer,
               nthOpt diffList (pointer + 1)) of
           (Some dprev, Some dcur, Some dnext) \<Rightarrow>
             if fst dprev = DIFF_EQUAL \<and> fst dnext = DIFF_EQUAL then
               (let equality1 = snd dprev;
                    edit = snd dcur;
                    equality2 = snd dnext;
                    commonOffset = commonSuffix equality1 edit;
                    commonString = substringFrom edit (int (length edit) - int commonOffset);
                    equality1a = (if commonOffset \<noteq> 0
                       then substring equality1 0 (int (length equality1) - int commonOffset)
                       else equality1);
                    edita = (if commonOffset \<noteq> 0
                       then commonString @ substring edit 0 (int (length edit) - int commonOffset)
                       else edit);
                    equality2a = (if commonOffset \<noteq> 0 then commonString @ equality2
                                  else equality2)
                in case cleanupSemanticLossless_shift equality1a edita equality2a
                          equality1a edita equality2a
                          (cleanupSemanticScore equality1a edita +
                           cleanupSemanticScore edita equality2a) of
                     None \<Rightarrow> None
                   | Some (bestEquality1, bestEdit, bestEquality2) \<Rightarrow>
                       if snd dprev \<noteq> bestEquality1 then
                         (let diffs1 = (if bestEquality1 \<noteq> []
                                then setText diffList (nat (pointer - 1)) bestEquality1
                                else splice diffList (nat (pointer - 1)) 1 []);
                              pointer1 = (if bestEquality1 \<noteq> [] then pointer else pointer - 1);
                              diffs2 = setText diffs1 (nat pointer1) bestEdit;
                              diffs3 = (if bestEquality2 \<noteq> []
                                then setText diffs2 (nat (pointer1 + 1)) bestEquality2
                                else splice diffs2 (nat (pointer1 + 1)) 1 []);
                              pointer3 = (if bestEquality2 \<noteq> [] then pointer1 else pointer1 - 1)
                          in cleanupSemanticLossless_loop diffs3 (pointer3 + 1))
                       else cleanupSemanticLossless_loop diffList (pointer + 1))
             else cleanupSemanticLossless_loop diffList (pointer + 1)
         | _ \<Rightarrow> None)
      else Some diffList)"

declare cleanupSemanticLossless_loop.simps [code]

definition cleanupSemanticLossless :: "DiffObj list \<Rightarrow> DiffObj list option" where
  "cleanupSemanticLossless diffList = cleanupSemanticLossless_loop diffList 1"

section \<open>cleanupSemantic\<close>

text \<open>
  \<open>equalities\<close> is an array used as a stack through the counter \<open>equalitiesLength\<close>,
  which the source may decrease below zero; the array then keeps its entries under
  negative keys. It is modelled as a map from integer keys.

  The state of the first loop is \<open>diffList\<close>, \<open>equalities\<close>, \<open>equalitiesLength\<close>,
  \<open>lastEquality\<close> (\<open>None\<close> is \<open>null\<close>), \<open>pointer\<close>, the four counters and \<open>changes\<close>.
  When \<open>pointer\<close> is read from a missing entry of \<open>equalities\<close> it is \<open>undefined\<close>,
  the increment makes it \<open>NaN\<close> and the loop ends.
\<close>

partial_function (option) cleanupSemantic_loop ::
  "DiffObj list \<Rightarrow> (int \<Rightarrow> int option) \<Rightarrow> int \<Rightarrow> jstring option \<Rightarrow> int
     \<Rightarrow> nat \<Rightarrow> nat \<Rightarrow> nat \<Rightarrow> nat \<Rightarrow> bool \<Rightarrow> (DiffObj list \<times> bool) option" where
  "cleanupSemantic_loop diffList equalities equalitiesLength lastEquality pointer
       lengthInsertions1 lengthDeletions1 lengthInsertions2 lengthDeletions2 changes =
     (if pointer < int (length diffList) then
        (case nthOpt diffList pointer of
           None \<Rightarrow> None
         | Some d \<Rightarrow>
             if fst d = DIFF_EQUAL then
               cleanupSemantic_loop diffList
                 (equalities(equalitiesLength \<mapsto> pointer)) (equalitiesLength + 1)
                 (Some (snd d)) (pointer + 1)
                 lengthInsertions2 lengthDeletions2 0 0 changes
             else
               (let lengthInsertions2a = (if fst d = DIFF_INSERT
                      then lengthInsertions2 + length (snd d) else lengthInsertions2);
                    lengthDeletions2a = (if fst d = DIFF_INSERT
                      then lengthDeletions2 else lengthDeletions2 + length (snd d))
                in case lastEquality of
                     None \<Rightarrow>
                       cleanupSemantic_loop diffList equalities equalitiesLength lastEquality
                         (pointer + 1) lengthInsertions1 lengthDeletions1
                         lengthInsertions2a lengthDeletions2a changes
                   | Some lastEq \<Rightarrow>
                       if length lastEq \<le> max lengthInsertions1 lengthDeletions1 \<and>
                          length lastEq \<le> max lengthInsertions2a lengthDeletions2a
                       then
                         (case equalities (equalitiesLength - 1) of
                            None \<Rightarrow> None
                          | Some e \<Rightarrow>
                              (let diffs1 = splice diffList (nat e) 0 [(DIFF_DELETE, lastEq)];
                                   diffs2 = setOp diffs1 (nat (e + 1)) DIFF_INSERT;
                                   equalitiesLength1 = equalitiesLength - 2
                               in if nthOpt diffs1 (e + 1) = None then None
                                  else if equalitiesLength1 > 0 then
                                    (case equalities (equalitiesLength1 - 1) of
                                       None \<Rightarrow> Some (diffs2, True)
                                     | Some p \<Rightarrow>
                                         cleanupSemantic_loop diffs2 equalities equalitiesLength1
                                           None (p + 1) 0 0 0 0 True)
                                  else
                                    cleanupSemantic_loop diffs2 equalities equalitiesLength1
                                      None 0 0 0 0 0 True))
                       else
                         cleanupSemantic_loop diffList equalities equalitiesLength lastEquality
                           (pointer + 1) lengthInsertions1 lengthDeletions1
                           lengthInsertions2a lengthDeletions2a changes))
      else Some (diffList, changes))"

declare cleanupSemantic_loop.simps [code]

text \<open>
  The last loop of \<open>cleanupSemantic\<close> extracts an overlap between a deletion and the
  insertion after it.
\<close>

partial_function (option) cleanupSemantic_overlaps ::
  "DiffObj list \<Rightarrow> nat \<Rightarrow> DiffObj list option" where
  "cleanupSemantic_overlaps diffList pointer =
     (if pointer < length diffList then
        (if fst (diffList ! (pointer - 1)) = DIFF_DELETE \<and>
            fst (diffList ! pointer) = DIFF_INSERT
         then
           (let deletion = snd (diffList ! (pointer - 1));
                insertion = snd (diffList ! pointer)
            in case (commonOverlap deletion insertion, commonOverlap insertion deletion) of
                 (Some overlapLength1, Some overlapLength2) \<Rightarrow>
                   if overlapLength1 \<ge> overlapLength2 then
                     (if 2 * overlapLength1 \<ge> length deletion \<or>
                         2 * overlapLength1 \<ge> length insertion
                      then
                        cleanupSemantic_overlaps
                          (setText
                             (setText
                                (splice diffList pointer 0
                                   [(DIFF_EQUAL, substring insertion 0 (int overlapLength1))])
                                (pointer - 1)
                                (substring deletion 0
                                   (int (length deletion) - int overlapLength1)))
                             (pointer + 1) (substringFrom insertion (int overlapLength1)))
                          (pointer + 3)
                      else cleanupSemantic_overlaps diffList (pointer + 2))
                   else
                     (if 2 * overlapLength2 \<ge> length deletion \<or>
                         2 * overlapLength2 \<ge> length insertion
                      then
                        cleanupSemantic_overlaps
                          (setText
                             (setOp
                                (setText
                                   (setOp
                                      (splice diffList pointer 0
                                         [(DIFF_EQUAL, substring deletion 0 (int overlapLength2))])
                                      (pointer - 1) DIFF_INSERT)
                                   (pointer - 1)
                                   (substring insertion 0
                                      (int (length insertion) - int overlapLength2)))
                                (pointer + 1) DIFF_DELETE)
                             (pointer + 1) (substringFrom deletion (int overlapLength2)))
                          (pointer + 3)
                      else cleanupSemantic_overlaps diffList (pointer + 2))
               | _ \<Rightarrow> None)
         else cleanupSemantic_overlaps diffList (pointer + 1))
      else Some diffList)"

declare cleanupSemantic_overlaps.simps [code]

definition cleanupSemantic :: "DiffObj list \<Rightarrow> DiffObj list option" where
  "cleanupSemantic diffList =
     (case cleanupSemantic_loop diffList Map.empty 0 None 0 0 0 0 0 False of
        None \<Rightarrow> None
      | Some (diffs1, changes) \<Rightarrow>
          (case (if changes then cleanupMerge diffs1 else Some diffs1) of
             None \<Rightarrow> None
           | Some diffs2 \<Rightarrow>
               (case cleanupSemanticLossless diffs2 of
                  None \<Rightarrow> None
                | Some diffs3 \<Rightarrow> cleanupSemantic_overlaps diffs3 1)))"

section \<open>cleanupEfficiency\<close>

text \<open>
  The state of the loop is \<open>diffList\<close>, \<open>equalities\<close>, \<open>equalitiesLength\<close>,
  \<open>lastEquality\<close>, \<open>pointer\<close>, the flags \<open>preIns\<close>, \<open>preDel\<close>, \<open>postIns\<close>, \<open>postDel\<close>
  and \<open>changes\<close>. \<open>cleanupEfficiency_step\<close> is one run of the loop body, the final
  \<open>pointer++\<close> included; the flag beside the new state says that \<open>pointer\<close> was read
  from a missing entry of \<open>equalities\<close>, so that it is \<open>NaN\<close> and the loop ends.
\<close>

type_synonym efficiencyState =
  "DiffObj list \<times> (int \<Rightarrow> int option) \<times> int \<times> jstring option \<times> int
     \<times> bool \<times> bool \<times> bool \<times> bool \<times> bool"

definition countTrue :: "bool list \<Rightarrow> nat" where
  "countTrue bs = length (filter id bs)"

definition cleanupEfficiency_step ::
  "DiffConfig \<Rightarrow> efficiencyState \<Rightarrow> (efficiencyState \<times> bool) option" where
  "cleanupEfficiency_step cfg st =
     (case st of
        (diffList, equalities, equalitiesLength, lastEquality, pointer,
         preIns, preDel, postIns, postDel, changes) \<Rightarrow>
     (case nthOpt diffList pointer of
        None \<Rightarrow> None
      | Some d \<Rightarrow>
          if fst d = DIFF_EQUAL then
            (if of_nat (length (snd d)) < diffEditCost cfg \<and> (postIns \<or> postDel) then
               Some ((diffList, equalities(equalitiesLength \<mapsto> pointer),
                      equalitiesLength + 1, Some (snd d), pointer + 1,
                      postIns, postDel, False, False, changes), False)
             else
               Some ((diffList, equalities, 0, None, pointer + 1,
                      preIns, preDel, False, False, changes), False))
          else
            (let postDel1 = (if fst d = DIFF_DELETE then True else postDel);
                 postIns1 = (if fst d = DIFF_DELETE then postIns else True)
             in case lastEquality of
                  None \<Rightarrow>
                    Some ((diffList, equalities, equalitiesLength, lastEquality, pointer + 1,
                           preIns, preDel, postIns1, postDel1, changes), False)
                | Some lastEq \<Rightarrow>
                    if (preIns \<and> preDel \<and> postIns1 \<and> postDel1) \<or>
                       (of_nat (length lastEq) < diffEditCost cfg / 2 \<and>
                        countTrue [preIns, preDel, postIns1, postDel1] = 3)
                    then
                      (case equalities (equalitiesLength - 1) of
                         None \<Rightarrow> None
                       | Some e \<Rightarrow>
                           (let diffs1 = splice diffList (nat e) 0 [(DIFF_DELETE, lastEq)];
                                diffs2 = setOp diffs1 (nat (e + 1)) DIFF_INSERT
                            in if nthOpt diffs1 (e + 1) = None then None
                               else if preIns \<and> preDel then
                                 Some ((diffs2, equalities, 0, None, pointer + 1,
                                        preIns, preDel, True, True, True), False)
                               else if equalitiesLength - 2 > 0 then
                                 (case equalities (equalitiesLength - 2 - 1) of
                                    None \<Rightarrow>
                                      Some ((diffs2, equalities, equalitiesLength - 2, None,
                                             pointer, preIns, preDel, False, False, True), True)
                                  | Some p \<Rightarrow>
                                      Some ((diffs2, equalities, equalitiesLength - 2, None,
                                             p + 1, preIns, preDel, False, False, True), False))
                               else
                                 Some ((diffs2, equalities, equalitiesLength - 2, None,
                                        0, preIns, preDel, False, False, True), False)))
                    else
                      Some ((diffList, equalities, equalitiesLength, lastEquality, pointer + 1,
                             preIns, preDel, postIns1, postDel1, changes), False))))"

partial_function (option) cleanupEfficiency_loop ::
  "DiffConfig \<Rightarrow> efficiencyState \<Rightarrow> (DiffObj list \<times> bool) option" where
  "cleanupEfficiency_loop cfg st =
     (case st of
        (diffList, equalities, equalitiesLength, lastEquality, pointer,
         preIns, preDel, postIns, postDel, changes) \<Rightarrow>
     (if pointer < int (length diffList) then
        (case cleanupEfficiency_step cfg st of
           None \<Rightarrow> None
         | Some (st1, isNaN) \<Rightarrow>
             if isNaN then Some (fst st1, snd (snd (snd (snd (snd (snd (snd (snd (snd st1)))))))))
             else cleanupEfficiency_loop cfg st1)
      else Some (diffList, changes)))"

declare cleanupEfficiency_loop.simps [code]

definition cleanupEfficiency :: "DiffConfig \<Rightarrow> DiffObj list \<Rightarrow> DiffObj list option" where
  "cleanupEfficiency cfg diffList =
     (case cleanupEfficiency_loop cfg
             (diffList, Map.empty, 0, None, 0, False, False, False, False, False) of
        None \<Rightarrow> None
      | Some (diffs1, changes) \<Rightarrow> if changes then cleanupMerge diffs1 else Some diffs1)"

section \<open>xIndex and levenshtein\<close>

text \<open>
  \<open>Diff.xIndex\<close>: the loop runs over the tuples; at its head \<open>chars1 = lastChars1\<close> and
  \<open>chars2 = lastChars2\<close>.
\<close>

fun xIndex_loop :: "DiffObj list \<Rightarrow> int \<Rightarrow> int \<Rightarrow> int \<Rightarrow> int" where
  "xIndex_loop [] loc lastChars1 lastChars2 = lastChars2 + (loc - lastChars1)"
| "xIndex_loop (d # rest) loc lastChars1 lastChars2 =
     (let chars1 = (if fst d \<noteq> DIFF_INSERT then lastChars1 + int (length (snd d))
                    else lastChars1);
          chars2 = (if fst d \<noteq> DIFF_DELETE then lastChars2 + int (length (snd d))
                    else lastChars2)
      in if chars1 > loc then
           (if fst d = DIFF_DELETE then lastChars2 else lastChars2 + (loc - lastChars1))
         else xIndex_loop rest loc chars1 chars2)"

definition xIndex :: "DiffObj list \<Rightarrow> int \<Rightarrow> int" where
  "xIndex diffList loc = xIndex_loop diffList loc 0 0"

fun levenshtein_loop :: "DiffObj list \<Rightarrow> nat \<Rightarrow> nat \<Rightarrow> nat \<Rightarrow> nat" where
  "levenshtein_loop [] lev insertions deletions = lev + max insertions deletions"
| "levenshtein_loop (d # rest) lev insertions deletions =
     (case fst d of
        DIFF_INSERT \<Rightarrow> levenshtein_loop rest lev (insertions + length (snd d)) deletions
      | DIFF_DELETE \<Rightarrow> levenshtein_loop rest lev insertions (deletions + length (snd d))
      | DIFF_EQUAL \<Rightarrow> levenshtein_loop rest (lev + max insertions deletions) 0 0)"

definition levenshtein :: "DiffObj list \<Rightarrow> nat" where
  "levenshtein diffList = levenshtein_loop diffList 0 0 0"

section \<open>Bisect\<close>

text \<open>
  The arrays \<open>v1\<close> and \<open>v2\<close> are maps from indices to numbers; \<open>None\<close> is what JavaScript
  reads as \<open>undefined\<close> or computes as \<open>NaN\<close>: every comparison with it is false, and it
  differs from \<open>-1\<close>.
\<close>

type_synonym vArray = "int \<Rightarrow> int option"

definition jsLess :: "int option \<Rightarrow> int option \<Rightarrow> bool" where
  "jsLess a b = (case (a, b) of (Some x, Some y) \<Rightarrow> x < y | _ \<Rightarrow> False)"

definition jsGreaterEq :: "int option \<Rightarrow> int option \<Rightarrow> bool" where
  "jsGreaterEq a b = (case (a, b) of (Some x, Some y) \<Rightarrow> x \<ge> y | _ \<Rightarrow> False)"

definition vInit :: "int \<Rightarrow> vArray" where
  "vInit maxD = (\<lambda>x. if x = maxD + 1 then Some 0
                      else if 0 \<le> x \<and> x < 2 * maxD then Some (-1) else None)"

text \<open>The two \<open>while\<close> loops that follow a diagonal.\<close>

function bisect_snake1 :: "jstring \<Rightarrow> jstring \<Rightarrow> int \<Rightarrow> int \<Rightarrow> int \<times> int" where
  "bisect_snake1 text1 text2 x1 y1 =
     (if x1 < int (length text1) \<and> y1 < int (length text2) \<and>
         charAt text1 x1 = charAt text2 y1
      then bisect_snake1 text1 text2 (x1 + 1) (y1 + 1)
      else (x1, y1))"
  by pat_completeness auto
termination
  by (relation "measure (\<lambda>(text1, text2, x1, y1). nat (int (length text1) - x1))") auto

declare bisect_snake1.simps [simp del]

function bisect_snake2 :: "jstring \<Rightarrow> jstring \<Rightarrow> int \<Rightarrow> int \<Rightarrow> int \<times> int" where
  "bisect_snake2 text1 text2 x2 y2 =
     (if x2 < int (length text1) \<and> y2 < int (length text2) \<and>
         charAt text1 (int (length text1) - x2 - 1) =
         charAt text2 (int (length text2) - y2 - 1)
      then bisect_snake2 text1 text2 (x2 + 1) (y2 + 1)
      else (x2, y2))"
  by pat_completeness auto
termination
  by (relation "measure (\<lambda>(text1, text2, x2, y2). nat (int (length text1) - x2))") auto

declare bisect_snake2.simps [simp del]

text \<open>
  The front walk of one step \<open>d\<close>: the loop over \<open>k1\<close>. It returns \<open>Inl (x1, y1)\<close> when
  an overlap is detected, and otherwise \<open>Inr (v1, k1start, k1end)\<close>.
\<close>

function bisect_front ::
  "jstring \<Rightarrow> jstring \<Rightarrow> int \<Rightarrow> vArray \<Rightarrow> vArray \<Rightarrow> int \<Rightarrow> int \<Rightarrow> int
     \<Rightarrow> (int \<times> int) + (vArray \<times> int \<times> int)" where
  "bisect_front text1 text2 d v1 v2 k1start k1end k1 =
     (if k1 \<le> d - k1end then
        (let text1Length = int (length text1);
             text2Length = int (length text2);
             maxD = (text1Length + text2Length + 1) div 2;
             vOffset = maxD;
             vLength = 2 * maxD;
             delta = text1Length - text2Length;
             front = (delta mod 2 \<noteq> 0);
             k1Offset = vOffset + k1;
             x1 = (if k1 = - d \<or> (k1 \<noteq> d \<and> jsLess (v1 (k1Offset - 1)) (v1 (k1Offset + 1)))
                   then v1 (k1Offset + 1)
                   else map_option (\<lambda>x. x + 1) (v1 (k1Offset - 1)));
             y1 = map_option (\<lambda>x. x - k1) x1;
             xy = (case (x1, y1) of
                     (Some x, Some y) \<Rightarrow>
                       (Some (fst (bisect_snake1 text1 text2 x y)),
                        Some (snd (bisect_snake1 text1 text2 x y)))
                   | _ \<Rightarrow> (x1, y1));
             v1a = v1(k1Offset := fst xy)
         in if jsLess (Some text1Length) (fst xy) then
              bisect_front text1 text2 d v1a v2 k1start (k1end + 2) (k1 + 2)
            else if jsLess (Some text2Length) (snd xy) then
              bisect_front text1 text2 d v1a v2 (k1start + 2) k1end (k1 + 2)
            else if front then
              (let k2Offset = vOffset + delta - k1
               in if k2Offset \<ge> 0 \<and> k2Offset < vLength \<and> v2 k2Offset \<noteq> Some (-1) then
                    (let x2 = map_option (\<lambda>x. text1Length - x) (v2 k2Offset)
                     in if jsGreaterEq (fst xy) x2 then Inl (the (fst xy), the (snd xy))
                        else bisect_front text1 text2 d v1a v2 k1start k1end (k1 + 2))
                  else bisect_front text1 text2 d v1a v2 k1start k1end (k1 + 2))
            else bisect_front text1 text2 d v1a v2 k1start k1end (k1 + 2))
      else Inr (v1, k1start, k1end))"
  by pat_completeness auto
termination
  by (relation "measure (\<lambda>(text1, text2, d, v1, v2, k1start, k1end, k1).
                   nat (d - k1end - k1 + 1))") auto

declare bisect_front.simps [simp del]

text \<open>The reverse walk: the loop over \<open>k2\<close>.\<close>

function bisect_reverse ::
  "jstring \<Rightarrow> jstring \<Rightarrow> int \<Rightarrow> vArray \<Rightarrow> vArray \<Rightarrow> int \<Rightarrow> int \<Rightarrow> int
     \<Rightarrow> (int \<times> int) + (vArray \<times> int \<times> int)" where
  "bisect_reverse text1 text2 d v1 v2 k2start k2end k2 =
     (if k2 \<le> d - k2end then
        (let text1Length = int (length text1);
             text2Length = int (length text2);
             maxD = (text1Length + text2Length + 1) div 2;
             vOffset = maxD;
             vLength = 2 * maxD;
             delta = text1Length - text2Length;
             front = (delta mod 2 \<noteq> 0);
             k2Offset = vOffset + k2;
             x2 = (if k2 = - d \<or> (k2 \<noteq> d \<and> jsLess (v2 (k2Offset - 1)) (v2 (k2Offset + 1)))
                   then v2 (k2Offset + 1)
                   else map_option (\<lambda>x. x + 1) (v2 (k2Offset - 1)));
             y2 = map_option (\<lambda>x. x - k2) x2;
             xy = (case (x2, y2) of
                     (Some x, Some y) \<Rightarrow>
                       (Some (fst (bisect_snake2 text1 text2 x y)),
                        Some (snd (bisect_snake2 text1 text2 x y)))
                   | _ \<Rightarrow> (x2, y2));
             v2a = v2(k2Offset := fst xy)
         in if jsLess (Some text1Length) (fst xy) then
              bisect_reverse text1 text2 d v1 v2a k2start (k2end + 2) (k2 + 2)
            else if jsLess (Some text2Length) (snd xy) then
              bisect_reverse text1 text2 d v1 v2a (k2start + 2) k2end (k2 + 2)
            else if \<not> front then
              (let k1Offset = vOffset + delta - k2
               in if k1Offset \<ge> 0 \<and> k1Offset < vLength \<and> v1 k1Offset \<noteq> Some (-1) then
                    (let x1 = v1 k1Offset;
                         y1 = map_option (\<lambda>x. vOffset + x - k1Offset) x1;
                         x2a = map_option (\<lambda>x. text1Length - x) (fst xy)
                     in if jsGreaterEq x1 x2a then Inl (the x1, the y1)
                        else bisect_reverse text1 text2 d v1 v2a k2start k2end (k2 + 2))
                  else bisect_reverse text1 text2 d v1 v2a k2start k2end (k2 + 2))
            else bisect_reverse text1 text2 d v1 v2a k2start k2end (k2 + 2))
      else Inr (v2, k2start, k2end))"
  by pat_completeness auto
termination
  by (relation "measure (\<lambda>(text1, text2, d, v1, v2, k2start, k2end, k2).
                   nat (d - k2end - k2 + 1))") auto

declare bisect_reverse.simps [simp del]

text \<open>
  The loop over \<open>d\<close>. Each run reads the clock once; \<open>tick\<close> counts the readings. The
  result is the overlap found, if any, and the new count.
\<close>

function bisect_loop ::
  "DiffConfig \<Rightarrow> jstring \<Rightarrow> jstring \<Rightarrow> deadline \<Rightarrow> int \<Rightarrow> vArray \<Rightarrow> vArray
     \<Rightarrow> int \<Rightarrow> int \<Rightarrow> int \<Rightarrow> int \<Rightarrow> nat \<Rightarrow> (int \<times> int) option \<times> nat" where
  "bisect_loop cfg text1 text2 deadline d v1 v2 k1start k1end k2start k2end tick =
     (if d < (int (length text1) + int (length text2) + 1) div 2 then
        (if pastDeadline (clock cfg tick) deadline then (None, tick + 1)
         else
           (case bisect_front text1 text2 d v1 v2 k1start k1end (- d + k1start) of
              Inl xy \<Rightarrow> (Some xy, tick + 1)
            | Inr (v1a, k1starta, k1enda) \<Rightarrow>
                (case bisect_reverse text1 text2 d v1a v2 k2start k2end (- d + k2start) of
                   Inl xy \<Rightarrow> (Some xy, tick + 1)
                 | Inr (v2a, k2starta, k2enda) \<Rightarrow>
                     bisect_loop cfg text1 text2 deadline (d + 1) v1a v2a
                       k1starta k1enda k2starta k2enda (tick + 1))))
      else (None, tick))"
  by pat_completeness auto
termination
  by (relation "measure (\<lambda>(cfg, text1, text2, deadline, d, rest).
                   nat ((int (length text1) + int (length text2) + 1) div 2 - d))") auto

declare bisect_loop.simps [simp del]

section \<open>main, compute, lineMode, bisect\<close>

text \<open>
  \<open>main\<close>, \<open>compute\<close>, \<open>lineMode\<close>, \<open>bisect\<close> and \<open>bisectSplit\<close> call each other. Each
  is defined with the function to call for \<open>this.main\<close> as its first argument;
  \<open>Diff_main_rec\<close> closes the recursion, counting the depth of the calls of \<open>main\<close>, and
  is \<open>None\<close> when the depth allowed is used up. A call of \<open>main\<close> takes the deadline and
  the number of clock readings so far, and returns the script and the new number of
  readings. The texts are strings, so the \<open>null\<close> check of \<open>main\<close> cannot fail.
\<close>

type_synonym mainFun =
  "jstring \<Rightarrow> jstring \<Rightarrow> bool \<Rightarrow> deadline \<Rightarrow> nat \<Rightarrow> (DiffObj list \<times> nat) option"

definition bisectSplit ::
  "mainFun \<Rightarrow> jstring \<Rightarrow> jstring \<Rightarrow> int \<Rightarrow> int \<Rightarrow> deadline \<Rightarrow> nat
     \<Rightarrow> (DiffObj list \<times> nat) option" where
  "bisectSplit main text1 text2 x y deadline tick =
     (let text1a = substring text1 0 x;
          text2a = substring text2 0 y;
          text1b = substringFrom text1 x;
          text2b = substringFrom text2 y
      in case main text1a text2a False deadline tick of
           None \<Rightarrow> None
         | Some (diffList, tick1) \<Rightarrow>
             (case main text1b text2b False deadline tick1 of
                None \<Rightarrow> None
              | Some (diffsb, tick2) \<Rightarrow> Some (diffList @ diffsb, tick2)))"

definition bisect ::
  "DiffConfig \<Rightarrow> mainFun \<Rightarrow> jstring \<Rightarrow> jstring \<Rightarrow> deadline \<Rightarrow> nat
     \<Rightarrow> (DiffObj list \<times> nat) option" where
  "bisect cfg main text1 text2 deadline tick =
     (let maxD = (int (length text1) + int (length text2) + 1) div 2
      in case bisect_loop cfg text1 text2 deadline 0 (vInit maxD) (vInit maxD) 0 0 0 0 tick of
           (Some (x, y), tick1) \<Rightarrow> bisectSplit main text1 text2 x y deadline tick1
         | (None, tick1) \<Rightarrow> Some ([(DIFF_DELETE, text1), (DIFF_INSERT, text2)], tick1))"

text \<open>
  The loop of \<open>lineMode\<close> that rediffs the replacement blocks; its state is \<open>diffList\<close>,
  \<open>pointer\<close>, the two counters and the two texts.
\<close>

function lineMode_loop ::
  "mainFun \<Rightarrow> deadline \<Rightarrow> DiffObj list \<Rightarrow> nat \<Rightarrow> nat \<Rightarrow> nat \<Rightarrow> jstring \<Rightarrow> jstring \<Rightarrow> nat
     \<Rightarrow> (DiffObj list \<times> nat) option" where
  "lineMode_loop main deadline diffList pointer countDelete countInsert
       textDelete textInsert tick =
     (if pointer < length diffList then
        (case fst (diffList ! pointer) of
           DIFF_INSERT \<Rightarrow>
             lineMode_loop main deadline diffList (pointer + 1) countDelete (countInsert + 1)
               textDelete (textInsert @ snd (diffList ! pointer)) tick
         | DIFF_DELETE \<Rightarrow>
             lineMode_loop main deadline diffList (pointer + 1) (countDelete + 1) countInsert
               (textDelete @ snd (diffList ! pointer)) textInsert tick
         | DIFF_EQUAL \<Rightarrow>
             if countDelete \<ge> 1 \<and> countInsert \<ge> 1 then
               (case main textDelete textInsert False deadline tick of
                  None \<Rightarrow> None
                | Some (subDiff, tick1) \<Rightarrow>
                    lineMode_loop main deadline
                      (splice diffList (pointer - countDelete - countInsert)
                         (countDelete + countInsert) subDiff)
                      (pointer - countDelete - countInsert + length subDiff + 1)
                      0 0 [] [] tick1)
             else lineMode_loop main deadline diffList (pointer + 1) 0 0 [] [] tick)
      else Some (diffList, tick))"
  by pat_completeness auto
termination
  by (relation "measure (\<lambda>(main, deadline, diffList, pointer, rest).
                   length diffList - pointer)") (auto simp add: splice_def)

declare lineMode_loop.simps [simp del]

definition lineMode ::
  "mainFun \<Rightarrow> jstring \<Rightarrow> jstring \<Rightarrow> deadline \<Rightarrow> nat \<Rightarrow> (DiffObj list \<times> nat) option" where
  "lineMode main text1 text2 deadline tick =
     (case linesToChars text1 text2 of
        None \<Rightarrow> None
      | Some (chars1, chars2, linearray) \<Rightarrow>
          (case main chars1 chars2 False deadline tick of
             None \<Rightarrow> None
           | Some (diffs0, tick1) \<Rightarrow>
               (case cleanupSemantic (charsToLines diffs0 linearray) of
                  None \<Rightarrow> None
                | Some diffs1 \<Rightarrow>
                    (case lineMode_loop main deadline (diffs1 @ [(DIFF_EQUAL, [])])
                            0 0 0 [] [] tick1 of
                       None \<Rightarrow> None
                     | Some (diffs2, tick2) \<Rightarrow> Some (butlast diffs2, tick2)))))"

definition compute ::
  "DiffConfig \<Rightarrow> mainFun \<Rightarrow> jstring \<Rightarrow> jstring \<Rightarrow> bool \<Rightarrow> deadline \<Rightarrow> nat
     \<Rightarrow> (DiffObj list \<times> nat) option" where
  "compute cfg main text1 text2 checklines deadline tick =
     (if text1 = [] then Some ([(DIFF_INSERT, text2)], tick)
      else if text2 = [] then Some ([(DIFF_DELETE, text1)], tick)
      else
        (let longtext = (if length text1 > length text2 then text1 else text2);
             shorttext = (if length text1 > length text2 then text2 else text1);
             i = indexOf longtext shorttext
         in if i \<noteq> -1 then
              (let op = (if length text1 > length text2 then DIFF_DELETE else DIFF_INSERT)
               in Some ([(op, substring longtext 0 i),
                         (DIFF_EQUAL, shorttext),
                         (op, substringFrom longtext (i + int (length shorttext)))], tick))
            else if length shorttext = 1 then
              Some ([(DIFF_DELETE, text1), (DIFF_INSERT, text2)], tick)
            else
              (case halfMatch cfg text1 text2 of
                 None \<Rightarrow> None
               | Some (Some (text1A, text1B, text2A, text2B, midCommon)) \<Rightarrow>
                   (case main text1A text2A checklines deadline tick of
                      None \<Rightarrow> None
                    | Some (diffsA, tick1) \<Rightarrow>
                        (case main text1B text2B checklines deadline tick1 of
                           None \<Rightarrow> None
                         | Some (diffsB, tick2) \<Rightarrow>
                             Some (diffsA @ [(DIFF_EQUAL, midCommon)] @ diffsB, tick2)))
               | Some None \<Rightarrow>
                   if checklines \<and> length text1 > 100 \<and> length text2 > 100
                   then lineMode main text1 text2 deadline tick
                   else bisect cfg main text1 text2 deadline tick)))"

text \<open>The body of \<open>main\<close>, with the deadline given.\<close>

definition Diff_main_body :: "DiffConfig \<Rightarrow> mainFun \<Rightarrow> mainFun" where
  "Diff_main_body cfg main text1 text2 checklines deadline tick =
     (if text1 = text2 then
        (if text1 \<noteq> [] then Some ([(DIFF_EQUAL, text1)], tick) else Some ([], tick))
      else
        (let commonlength = commonPrefix text1 text2;
             commonprefix = substring text1 0 (int commonlength);
             text1a = substringFrom text1 (int commonlength);
             text2a = substringFrom text2 (int commonlength);
             commonlength1 = commonSuffix text1a text2a;
             commonsuffix = substringFrom text1a (int (length text1a) - int commonlength1);
             text1b = substring text1a 0 (int (length text1a) - int commonlength1);
             text2b = substring text2a 0 (int (length text2a) - int commonlength1)
         in case compute cfg main text1b text2b checklines deadline tick of
              None \<Rightarrow> None
            | Some (diffList, tick1) \<Rightarrow>
                (let diffs1 = (if commonprefix \<noteq> [] then (DIFF_EQUAL, commonprefix) # diffList
                               else diffList);
                     diffs2 = (if commonsuffix \<noteq> [] then diffs1 @ [(DIFF_EQUAL, commonsuffix)]
                               else diffs1)
                 in case cleanupMerge diffs2 of
                      None \<Rightarrow> None
                    | Some diffs3 \<Rightarrow> Some (diffs3, tick1))))"

fun Diff_main_rec :: "DiffConfig \<Rightarrow> nat \<Rightarrow> mainFun" where
  "Diff_main_rec cfg 0 = (\<lambda>text1 text2 checklines deadline tick. None)"
| "Diff_main_rec cfg (Suc depth) = Diff_main_body cfg (Diff_main_rec cfg depth)"

text \<open>
  \<open>main(text1, text2, checklines)\<close> as it is called from outside: the default value of
  \<open>deadline\<close> reads the clock when the timeout is positive.
\<close>

definition Diff_main ::
  "DiffConfig \<Rightarrow> nat \<Rightarrow> jstring \<Rightarrow> jstring \<Rightarrow> bool \<Rightarrow> DiffObj list option" where
  "Diff_main cfg depth text1 text2 checklines =
     (let deadline = (if diffTimeout cfg \<le> 0 then Never
                      else At (of_int (clock cfg 0) + diffTimeout cfg * 1000));
          tick = (if diffTimeout cfg \<le> 0 then 0 else 1)
      in map_option fst (Diff_main_rec cfg depth text1 text2 checklines deadline tick))"

section \<open>A text whose last line is \<open>toString\<close>\<close>

text \<open>
  The texts \<open>oldText\<close> and \<open>newText\<close> are longer than 100 characters, so that \<open>compute\<close>
  goes to \<open>lineMode\<close>. \<open>oldText\<close> is the line \<open>lineA\<close> (92 letters \<open>a\<close> and a newline)
  followed by \<open>toString\<close>, without a final newline; \<open>newText\<close> is the letter \<open>b\<close>,
  \<open>lineA\<close> and 109 letters \<open>c\<close>.
\<close>

definition lineA :: jstring where
  "lineA = replicate 92 0x61 @ [0x0A]"

definition lineB :: jstring where
  "lineB = 0x62 # lineA"

definition tailC :: jstring where
  "tailC = replicate 109 0x63"

definition oldText :: jstring where
  "oldText = lineA @ js ''toString''"

definition newText :: jstring where
  "newText = lineB @ tailC"

text \<open>The properties of a \<open>Diff\<close> built without parameters, on any clock.\<close>

definition defaultDiff :: "(nat \<Rightarrow> int) \<Rightarrow> DiffConfig" where
  "defaultDiff c = \<lparr>diffTimeout = 1, diffEditCost = 4, clock = c\<rparr>"

lemmas text_defs = oldText_def newText_def lineA_def lineB_def tailC_def js_def

lemma indexOfFrom_absent:
  assumes "c \<in> set p" "c \<notin> set s"
  shows "indexOfFrom s p from = -1"
proof -
  have "\<not> occursAt s p i" for i
  proof
    assume "occursAt s p i"
    then have "p = take (length p) (drop i s)"
      by (simp add: occursAt_def)
    then have "set p \<subseteq> set s"
      by (metis set_take_subset set_drop_subset subset_trans)
    with assms show False by auto
  qed
  then have "List.find (occursAt s p) xs = None" for xs
    by (simp add: find_None_iff)
  then show ?thesis
    by (simp add: indexOfFrom_def)
qed

lemma length_oldText: "length oldText = 101"
  by (simp add: text_defs)

lemma length_newText: "length newText = 203"
  by (simp add: text_defs)

lemma length_lineA: "length lineA = 93"
  by (simp add: text_defs)

lemma length_lineB: "length lineB = 94"
  by (simp add: text_defs)

lemma length_tailC: "length tailC = 109"
  by (simp add: text_defs)

lemma oldText_newline: "indexOfFrom oldText [0x0A] 0 = 92"
  by (simp add: text_defs indexOfFrom_def occursAt_def clampIndex_def upt_rec)

lemma oldText_newline2: "indexOfFrom oldText [0x0A] 93 = -1"
  by (simp add: text_defs indexOfFrom_def occursAt_def clampIndex_def upt_rec)

lemma newText_newline: "indexOfFrom newText [0x0A] 0 = 93"
  by (simp add: text_defs indexOfFrom_def occursAt_def clampIndex_def upt_rec)

lemma newText_newline2: "indexOfFrom newText [0x0A] 94 = -1"
  by (simp add: text_defs indexOfFrom_def occursAt_def clampIndex_def upt_rec)

lemma oldText_line1: "substring oldText 0 93 = lineA"
  by (simp add: text_defs substring_def clampIndex_def)

lemma oldText_line2: "substring oldText 93 101 = js ''toString''"
  by (simp add: text_defs substring_def clampIndex_def)

lemma newText_line1: "substring newText 0 94 = lineB"
  by (simp add: text_defs substring_def clampIndex_def)

lemma newText_line2: "substring newText 94 203 = tailC"
  by (simp add: text_defs substring_def clampIndex_def)

lemma lines_distinct:
  "lineA \<noteq> js ''toString''" "lineB \<noteq> lineA" "tailC \<noteq> lineA" "tailC \<noteq> lineB"
  "js ''toString'' \<noteq> lineA" "lineA \<noteq> lineB" "lineA \<noteq> tailC" "lineB \<noteq> tailC"
  "lineA \<noteq> []" "lineB \<noteq> []" "tailC \<noteq> []" "lineA \<noteq> newText" "oldText \<noteq> newText"
  "lineB \<noteq> js ''toString''" "tailC \<noteq> js ''toString''"
  "lineA \<noteq> js ''__proto__''" "lineB \<noteq> js ''__proto__''" "tailC \<noteq> js ''__proto__''"
  "js ''toString'' \<noteq> js ''__proto__''"
  by (auto simp add: text_defs dest!: arg_cong [where f = length])

lemma lines_not_inherited:
  "lineA \<notin> set objectPrototypeNames" "lineB \<notin> set objectPrototypeNames"
  "tailC \<notin> set objectPrototypeNames" "js ''toString'' \<in> set objectPrototypeNames"
  by (auto simp add: text_defs objectPrototypeNames_def dest!: arg_cong [where f = length])

lemma linesToChars_texts:
  "linesToChars oldText newText = Some ([1, 0], [2, 3], [[], lineA, lineB, tailC])"
  by (simp add: linesToChars_def linesToCharsMunge_loop.simps [of oldText] linesToCharsMunge_loop.simps [of newText]
      length_oldText length_newText oldText_newline oldText_newline2 newText_newline newText_newline2
      oldText_line1 oldText_line2 newText_line1 newText_line2 lines_distinct lines_not_inherited
      lineHashGet_def lineHashSet_def fromCharCode_def Let_def)
lemma bisect_loop_chars:
  "fst (bisect_loop cfg [1, 0] [2, 3] deadline 0 (vInit 2) (vInit 2) 0 0 0 0 tick) = None"
  by (simp add: bisect_loop.simps bisect_front.simps bisect_reverse.simps
      bisect_snake1.simps bisect_snake2.simps vInit_def jsLess_def jsGreaterEq_def
      charAt_def Let_def)

lemma main_chars:
  "\<exists>tick1. Diff_main_rec (defaultDiff c) (Suc depth) [1, 0] [2, 3] False deadline tick =
     Some ([(DIFF_DELETE, [1, 0]), (DIFF_INSERT, [2, 3])], tick1)"
proof -
  obtain r tick1 where r: "bisect_loop (defaultDiff c) [1, 0] [2, 3] deadline 0 (vInit 2) (vInit 2) 0 0 0 0 tick = (r, tick1)"
    by (cases "bisect_loop (defaultDiff c) [1, 0] [2, 3] deadline 0 (vInit 2) (vInit 2) 0 0 0 0 tick")
  with bisect_loop_chars [of "defaultDiff c" deadline tick] have "r = None" by simp
  with r show ?thesis
    by (simp add: Diff_main_body_def compute_def bisect_def halfMatch_def defaultDiff_def
        commonPrefix_def commonSuffix_def indexOf_def indexOfFrom_def occursAt_def upt_rec
        cleanupMerge_eval js_eval)
qed

lemma charsToLines_texts:
  "charsToLines [(DIFF_DELETE, [1, 0]), (DIFF_INSERT, [2, 3])] [[], lineA, lineB, tailC] =
     [(DIFF_DELETE, lineA), (DIFF_INSERT, newText)]"
  by (simp add: charsToLines_def newText_def)

lemma commonOverlap_texts:
  "commonOverlap lineA newText = Some 0" "commonOverlap newText lineA = Some 0"
   apply (simp_all add: commonOverlap_def commonOverlap_loop.simps text_defs js_eval
      indexOf_def indexOfFrom_def occursAt_def upt_rec)
  by (auto dest!: arg_cong [where f = hd])

lemma cleanupSemantic_texts:
  "cleanupSemantic [(DIFF_DELETE, lineA), (DIFF_INSERT, newText)] =
     Some [(DIFF_DELETE, lineA), (DIFF_INSERT, newText)]"
  by (simp add: cleanupSemantic_def cleanupSemantic_loop.simps nthOpt_def
      cleanupSemanticLossless_def cleanupSemanticLossless_loop.simps
      cleanupSemantic_overlaps.simps commonOverlap_texts length_lineA length_newText)

lemma newText_lineA: "indexOf newText lineA = 1"
  apply (simp add: text_defs indexOf_def indexOfFrom_def occursAt_def clampIndex_def upt_rec)
  by (auto dest!: arg_cong [where f = hd])

lemma text_parts:
  "substring newText 0 1 = [0x62]" "substringFrom newText 94 = tailC"
  "substring lineA 0 0 = []" "substringFrom lineA 0 = lineA" "substringFrom lineA 93 = []"
  "substring lineA 0 93 = lineA"
  "substring newText 0 0 = []" "substringFrom newText 0 = newText"
  "substringFrom newText 203 = []" "substring newText 0 203 = newText"
  "substring oldText 0 0 = []" "substringFrom oldText 0 = oldText"
  "substringFrom oldText 101 = []" "substring oldText 0 101 = oldText"
  "newText \<noteq> []" "oldText \<noteq> []"
  by (simp_all add: text_defs substring_def substringFrom_def clampIndex_def)

lemma ends_differ:
  "commonPrefix lineA newText = 0" "commonSuffix lineA newText = 0"
  "commonPrefix oldText newText = 0" "commonSuffix oldText newText = 0"
  by (simp_all add: commonPrefix_def commonSuffix_def charAt_def text_defs nth_append)

lemma cleanupMerge_rediff:
  "cleanupMerge [(DIFF_INSERT, [0x62]), (DIFF_EQUAL, lineA), (DIFF_INSERT, tailC)] =
     Some [(DIFF_INSERT, [0x62]), (DIFF_EQUAL, lineA), (DIFF_INSERT, tailC)]"
  by (simp add: cleanupMerge_eval js_eval lines_distinct)

lemma main_rediff:
  "Diff_main_rec (defaultDiff c) (Suc depth) lineA newText False deadline tick =
     Some ([(DIFF_INSERT, [0x62]), (DIFF_EQUAL, lineA), (DIFF_INSERT, tailC)], tick)"
  by (simp add: Diff_main_body_def compute_def lines_distinct ends_differ
      length_lineA length_newText newText_lineA text_parts cleanupMerge_rediff)

lemma lineMode_texts:
  "\<exists>tick1. lineMode (Diff_main_rec (defaultDiff c) (Suc depth)) oldText newText deadline tick =
     Some ([(DIFF_INSERT, [0x62]), (DIFF_EQUAL, lineA), (DIFF_INSERT, tailC)], tick1)"
proof -
  obtain tick1 where
    "Diff_main_rec (defaultDiff c) (Suc depth) [1, 0] [2, 3] False deadline tick =
       Some ([(DIFF_DELETE, [1, 0]), (DIFF_INSERT, [2, 3])], tick1)"
    using main_chars by blast
  then have "lineMode (Diff_main_rec (defaultDiff c) (Suc depth)) oldText newText deadline tick =
     Some ([(DIFF_INSERT, [0x62]), (DIFF_EQUAL, lineA), (DIFF_INSERT, tailC)], tick1)"
    by (simp add: lineMode_def linesToChars_texts charsToLines_texts cleanupSemantic_texts
        lineMode_loop.simps main_rediff splice_def del: Diff_main_rec.simps)
  then show ?thesis ..
qed

lemma oldText_absent: "indexOf newText oldText = -1"
proof -
  have "0x74 \<in> set oldText" "0x74 \<notin> set newText"
    by (simp_all add: text_defs)
  then show ?thesis
    unfolding indexOf_def by (rule indexOfFrom_absent)
qed

lemma main_texts:
  "\<exists>tick1. Diff_main_rec (defaultDiff c) (Suc (Suc depth)) oldText newText True deadline tick =
     Some ([(DIFF_INSERT, [0x62]), (DIFF_EQUAL, lineA), (DIFF_INSERT, tailC)], tick1)"
proof -
  obtain tick1 where
    "lineMode (Diff_main_rec (defaultDiff c) (Suc depth)) oldText newText deadline tick =
     Some ([(DIFF_INSERT, [0x62]), (DIFF_EQUAL, lineA), (DIFF_INSERT, tailC)], tick1)"
    using lineMode_texts by blast
  then have "Diff_main_rec (defaultDiff c) (Suc (Suc depth)) oldText newText True deadline tick =
     Some ([(DIFF_INSERT, [0x62]), (DIFF_EQUAL, lineA), (DIFF_INSERT, tailC)], tick1)"
    by (simp add: Diff_main_rec.simps(2) [of _ "Suc depth"] Diff_main_body_def compute_def
        lines_distinct ends_differ length_oldText length_newText oldText_absent
        halfMatch_def defaultDiff_def cleanupMerge_rediff text_parts
        del: Diff_main_rec.simps)
  then show ?thesis ..
qed

lemma Diff_main_texts:
  "Diff_main (defaultDiff c) (Suc (Suc depth)) oldText newText True =
     Some [(DIFF_INSERT, [0x62]), (DIFF_EQUAL, lineA), (DIFF_INSERT, tailC)]"
proof -
  obtain tick1 where
    "Diff_main_rec (defaultDiff c) (Suc (Suc depth)) oldText newText True
       (At (of_int (c 0) + 1000)) 1 =
     Some ([(DIFF_INSERT, [0x62]), (DIFF_EQUAL, lineA), (DIFF_INSERT, tailC)], tick1)"
    using main_texts by blast
  then show ?thesis
    by (simp add: Diff_main_def defaultDiff_def del: Diff_main_rec.simps)
qed

section \<open>Scripts that toDelta encodes\<close>

text \<open>
  \<open>encodeURI\<close> raises exactly when the text holds a surrogate that is not half of a
  pair. \<open>wellPaired\<close> says that every high surrogate is followed by a low one and that
  there is no other low surrogate; \<open>insertionsPaired\<close> says so of the text of every
  insertion of a script, which is the only text \<open>toDelta\<close> passes to \<open>encodeURI\<close>.
\<close>

fun wellPaired :: "jstring \<Rightarrow> bool" where
  "wellPaired [] = True"
| "wellPaired [c] = (\<not> isLowSurrogate c \<and> \<not> isHighSurrogate c)"
| "wellPaired (c # d # rest) =
     (if isHighSurrogate c then isLowSurrogate d \<and> wellPaired rest
      else \<not> isLowSurrogate c \<and> wellPaired (d # rest))"


lemma unescaped_not_surrogate:
  "uriUnescaped c \<Longrightarrow> \<not> isLowSurrogate c \<and> \<not> isHighSurrogate c"
  by (auto simp add: uriUnescaped_def uriReservedOrHash_def isAlphaNum_def
      isLowSurrogate_def isHighSurrogate_def word_le_nat_alt)




lemma wellPaired_encodeURI: "encodeURI s = Some e \<Longrightarrow> wellPaired s"
proof (induction s arbitrary: e rule: wellPaired.induct)
  case 1
  show ?case by simp
next
  case (2 c)
  then show ?case
    using unescaped_not_surrogate [of c] by (auto split: if_splits)
next
  case (3 c d rest)
  then show ?case
    using unescaped_not_surrogate [of c]
    by (auto split: if_splits simp add: isLowSurrogate_def isHighSurrogate_def word_le_nat_alt)
qed


section \<open>Properties\<close>

text \<open>
  C6. After \<open>cleanupMerge\<close> the script should contain no empty tuple and no two adjacent
  tuples with the same operation. The code misses a case: when a deletion and an
  insertion between two equalities cancel each other completely, the first sweep removes
  both and steps over the following equality without merging it into the previous one.
  On \<open>[(EQUAL, x), (DELETE, a), (INSERT, a), (EQUAL, y)]\<close> the result is
  \<open>[(EQUAL, xa), (EQUAL, y)]\<close>, which has two adjacent equalities.
\<close>

theorem cleanupMerge_adjacent_equalities:
  "cleanupMerge [(DIFF_EQUAL, js ''x''), (DIFF_DELETE, js ''a''),
                 (DIFF_INSERT, js ''a''), (DIFF_EQUAL, js ''y'')]
     = Some [(DIFF_EQUAL, js ''xa''), (DIFF_EQUAL, js ''y'')]
   \<and> \<not> canonicalForm [(DIFF_EQUAL, js ''xa''), (DIFF_EQUAL, js ''y'')]"
  by (simp add: cleanupMerge_eval js_eval canonicalForm_def)


text \<open>
  C7. \<open>fromDelta\<close> raises an error whenever the character counts of the \<open>=\<close> and
  \<open>-\<close> tokens do not sum to the length of \<open>text1\<close>; when every token is well formed
  and the counts sum to that length, it returns a script.
\<close>

theorem fromDelta_length_check:
  "(deltaCount delta \<noteq> int (length text1) \<longrightarrow> (\<exists>e. fromDelta text1 delta = Inl e)) \<and>
   (wellFormedDelta delta \<and> deltaCount delta = int (length text1) \<longrightarrow>
      (\<exists>diffList. fromDelta text1 delta = Inr diffList))"
proof (intro conjI impI)
  assume ne: "deltaCount delta \<noteq> int (length text1)"
  show "\<exists>e. fromDelta text1 delta = Inl e"
  proof (cases "fromDelta_loop text1 (splitOn 0x09 delta) 0 []")
    case (Inl e)
    then show ?thesis by (simp add: fromDelta_def)
  next
    case (Inr r)
    obtain p' ds' where r: "r = (p', ds')" by (cases r)
    from fromDelta_loop_pointer [OF Inr [unfolded r]] ne
    have "p' \<noteq> int (length text1)" by (simp add: deltaCount_def)
    with Inr r show ?thesis by (simp add: fromDelta_def)
  qed
next
  assume a: "wellFormedDelta delta \<and> deltaCount delta = int (length text1)"
  then obtain p' ds' where r: "fromDelta_loop text1 (splitOn 0x09 delta) 0 [] = Inr (p', ds')"
    using fromDelta_loop_wellFormed [of "splitOn 0x09 delta" text1 0 "[]"]
    by (auto simp: wellFormedDelta_def)
  from fromDelta_loop_pointer [OF r] a have "p' = int (length text1)"
    by (simp add: deltaCount_def)
  with r show "\<exists>diffList. fromDelta text1 delta = Inr diffList" by (simp add: fromDelta_def)
qed

theorem fromDelta_length_check_witness:
  "deltaCount (js ''=3'') \<noteq> int (length (js ''ab'')) \<and>
   (\<exists>e. fromDelta (js ''ab'') (js ''=3'') = Inl e) \<and>
   wellFormedDelta (js ''=1'' @ 0x09 # js ''-1'' @ 0x09 # js ''+c'') \<and> deltaCount (js ''=1'' @ 0x09 # js ''-1'' @ 0x09 # js ''+c'') = int (length (js ''ab'')) \<and>
   (\<exists>diffList. fromDelta (js ''ab'') (js ''=1'' @ 0x09 # js ''-1'' @ 0x09 # js ''+c'') = Inr diffList)"
proof -
  have 1: "deltaCount (js ''=3'') \<noteq> int (length (js ''ab''))"
    by (simp add: delta_eval js_eval)
  have 2: "wellFormedDelta (js ''=1'' @ 0x09 # js ''-1'' @ 0x09 # js ''+c'') \<and>
           deltaCount (js ''=1'' @ 0x09 # js ''-1'' @ 0x09 # js ''+c'') = int (length (js ''ab''))"
    by (simp add: delta_eval js_eval)
  from fromDelta_length_check [of "js ''=3''" "js ''ab''"] 1
       fromDelta_length_check [of "js ''=1'' @ 0x09 # js ''-1'' @ 0x09 # js ''+c''" "js ''ab''"] 2
  show ?thesis by blast
qed




text \<open>
  C1. The script returned by \<open>main\<close> should reconstruct both texts. \<open>linesToChars\<close> finds
  out whether a line was seen before by reading \<open>lineHash[line]\<close> on a plain object, so
  a last line equal to the name of a property of \<open>Object.prototype\<close> counts as seen: it
  is encoded as the code unit 0, which \<open>charsToLines\<close> decodes to the empty string. With
  the default properties, on any clock, \<open>main(oldText, newText)\<close> returns a script whose
  source text is \<open>lineA\<close>: the line \<open>toString\<close> of \<open>oldText\<close> is lost.
\<close>

theorem Diff_main_inherited_line:
  "Diff_main (defaultDiff c) (Suc (Suc depth)) oldText newText True =
     Some [(DIFF_INSERT, [0x62]), (DIFF_EQUAL, lineA), (DIFF_INSERT, tailC)]
   \<and> Diff_text1 [(DIFF_INSERT, [0x62]), (DIFF_EQUAL, lineA), (DIFF_INSERT, tailC)] = lineA
   \<and> lineA \<noteq> oldText
   \<and> Diff_text2 [(DIFF_INSERT, [0x62]), (DIFF_EQUAL, lineA), (DIFF_INSERT, tailC)] = newText"
proof -
  have "lineA \<noteq> oldText"
    by (auto simp add: text_defs dest!: arg_cong [where f = length])
  moreover have "[0x62] @ lineA @ tailC = newText"
    by (simp add: newText_def lineB_def)
  ultimately show ?thesis
    by (simp add: Diff_main_texts Diff_text1_def Diff_text2_def)
qed

end
